theory Spec2Isabelle
  imports Main "HOL-Library.AList" "HOL-Library.List_Lexorder" "HOL-Library.Char_ord"
begin

section \<open>Errors\<close>

text \<open>
  Go's \<open>error\<close> values. The three sentinel errors of the template model are
  constructors; \<open>LibError\<close> is an error produced by a library call, and \<open>Errorf\<close> is
  \<open>fmt.Errorf\<close> with a message and a wrapped cause (\<open>%w\<close>). A \<open>nil\<close> error is
  \<open>None\<close> of \<open>error option\<close>.
\<close>

datatype error =
    ErrTemplateNameNotSpecified
  | ErrTemplateMissingParameter
  | ErrInvalidHeaderProfile
  | LibError string
  | Errorf string error

section \<open>Header profiles\<close>

text \<open>
  A Go \<open>map[string]string\<close> literal is an association list with distinct keys; the map a
  function builds and returns is a HOL map.
\<close>

record HeaderProfile =
  Name :: string
  Headers :: "(string \<times> string) list"

definition PredefinedHeaderProfiles :: "(string \<times> HeaderProfile) list" where
  "PredefinedHeaderProfiles =
     [(''default'',
         \<lparr>Name = ''Default (Gophish)'',
          Headers = [(''MIME-Version'', ''1.0'')]\<rparr>),
      (''apple_mail'',
         \<lparr>Name = ''Apple Mail (macOS)'',
          Headers = [(''MIME-Version'', ''1.0 (Mac OS X Mail 11.5 (3445.9.1))''),
                     (''X-Mailer'', ''Apple Mail (2.3445.9.1)'')]\<rparr>),
      (''outlook'',
         \<lparr>Name = ''Microsoft Outlook (Desktop)'',
          Headers = [(''MIME-Version'', ''1.0''),
                     (''X-Mailer'', ''Microsoft Outlook 16.0''),
                     (''Content-Language'', ''en-us''),
                     (''x-ms-has-attach'', ''''),
                     (''x-ms-tnef-correlator'', '''')]\<rparr>),
      (''gmail_web'',
         \<lparr>Name = ''Gmail (Web Interface)'',
          Headers = [(''MIME-Version'', ''1.0'')]\<rparr>),
      (''yahoo_web'',
         \<lparr>Name = ''Yahoo Mail (Web Interface)'',
          Headers = [(''MIME-Version'', ''1.0'')]\<rparr>)]"

text \<open>
  The two-valued map read \<open>profile, ok := PredefinedHeaderProfiles[name]\<close>: a missing key
  gives the zero \<open>HeaderProfile\<close> and \<open>ok = false\<close>.
\<close>

definition zero_HeaderProfile :: HeaderProfile where
  "zero_HeaderProfile = \<lparr>Name = '''', Headers = []\<rparr>"

definition lookup_profile :: "string \<Rightarrow> HeaderProfile \<times> bool" where
  "lookup_profile k =
     (case map_of PredefinedHeaderProfiles k of
        Some p \<Rightarrow> (p, True)
      | None \<Rightarrow> (zero_HeaderProfile, False))"

subsection \<open>The boundary generator\<close>

text \<open>
  \<open>generateBoundary\<close> seeds a fresh \<open>math/rand\<close> generator from the clock and draws 30
  times from it. The generator a call creates is the sequence of its draws:
  \<open>seededRand k\<close> is the \<open>k\<close>-th raw value, and \<open>Intn n\<close> reduces the next raw value
  into \<open>[0, n)\<close>, as \<open>math/rand\<close> does for a positive \<open>n\<close>.
\<close>

type_synonym Rand = "nat \<Rightarrow> nat"

definition Intn :: "Rand \<Rightarrow> nat \<Rightarrow> nat \<Rightarrow> nat" where
  "Intn seededRand k n = seededRand k mod n"

definition charset :: string where
  "charset = ''abcdefghijklmnopqrstuvwxyzABCDEFGHIJKLMNOPQRSTUVWXYZ0123456789''"

definition boundary_length :: nat where
  "boundary_length = 30"

definition generateBoundary :: "Rand \<Rightarrow> string" where
  "generateBoundary seededRand =
     map (\<lambda>i. charset ! Intn seededRand i (length charset)) [0..<boundary_length]"

subsection \<open>The resolver\<close>

text \<open>
  \<open>GetHeadersForProfile\<close> calls \<open>generateBoundary\<close> once, and a second time when the
  resolved profile is \<open>apple_mail\<close>; \<open>r1\<close> and \<open>r2\<close> are the generators of the first and
  of the second call. The copy loop over the profile's headers is a fold that stores each
  pair; \<open>fmt.Sprintf\<close> with \<open>%s\<close> is concatenation.
\<close>

definition copy_headers :: "(string \<times> string) list \<Rightarrow> (string \<rightharpoonup> string)" where
  "copy_headers hs = fold (\<lambda>(k, v) headers. headers(k \<mapsto> v)) hs Map.empty"

definition content_type :: "string \<Rightarrow> string" where
  "content_type boundary =
     ''multipart/alternative; boundary='' @ [CHR 0x22] @ boundary @ [CHR 0x22]"

definition resolve_profile :: "string \<Rightarrow> string \<times> HeaderProfile" where
  "resolve_profile profileName =
     (let (profile, ok) = lookup_profile profileName
      in if \<not> ok \<or> profileName = []
         then (''default'', fst (lookup_profile ''default''))
         else (profileName, profile))"

definition GetHeadersForProfile ::
  "Rand \<Rightarrow> Rand \<Rightarrow> string \<Rightarrow> (string \<rightharpoonup> string) \<times> string \<times> error option" where
  "GetHeadersForProfile r1 r2 profileName0 =
     (let (profileName, profile) = resolve_profile profileName0;
          headers = copy_headers (Headers profile);
          boundary0 = ''----=_NextPart_'' @ generateBoundary r1;
          boundary = (if profileName = ''apple_mail''
                      then ''Apple-Mail=_'' @ generateBoundary r2
                      else boundary0);
          headers' = headers(''Content-Type'' \<mapsto> content_type boundary)
      in (headers', boundary, None))"

section \<open>Library types\<close>

text \<open>
  The structs of the Go standard library the two files read and write:
  \<open>net/mail.Address\<close>, \<open>net/url.URL\<close> with its \<open>Userinfo\<close>, and \<open>net/url.Values\<close>
  (a \<open>map[string][]string\<close>, here an association list with distinct keys read through
  \<open>map_of\<close>). \<open>Values.Set\<close> is the map store \<open>v[key] = []string{value}\<close>.
\<close>

record Address =
  Name :: string
  Address :: string

record Userinfo =
  username :: string
  password :: string
  passwordSet :: bool

record URL =
  Scheme :: string
  Opaque :: string
  User :: "Userinfo option"
  Host :: string
  Path :: string
  RawPath :: string
  OmitHost :: bool
  ForceQuery :: bool
  RawQuery :: string
  Fragment :: string
  RawFragment :: string

type_synonym Values = "(string \<times> string list) list"

definition Values_Set :: "Values \<Rightarrow> string \<Rightarrow> string \<Rightarrow> Values" where
  "Values_Set v key val = AList.update key [val] v"

section \<open>Package path\<close>

text \<open>
  \<open>path.Join\<close> and \<open>path.Clean\<close>, transcribed. \<open>Clean\<close> reads the path from index
  \<open>r\<close> and writes to a buffer \<open>out\<close> whose write index \<open>w\<close> is its length;
  \<open>clean_loop\<close> is the loop, on the unread rest of the path, and returns the buffer and
  \<open>dotdot\<close> as the loop leaves them. \<open>backtrack\<close> is the inner
  loop of a \<open>..\<close> element, which lowers \<open>w\<close> to the last slash above \<open>dotdot\<close>.
\<close>

primrec backtrack :: "string \<Rightarrow> nat \<Rightarrow> nat \<Rightarrow> nat" where
  "backtrack out dotdot 0 = 0"
| "backtrack out dotdot (Suc w) =
     (if Suc w > dotdot \<and> out ! Suc w \<noteq> CHR ''/'' then backtrack out dotdot w else Suc w)"

text \<open>
  The conditions of the second and third case of the loop's \<open>switch\<close>: the byte \<open>c\<close> at
  \<open>r\<close>, followed by \<open>cs\<close>, starts a \<open>.\<close> element, or a \<open>..\<close> element.
\<close>

definition is_dot :: "char \<Rightarrow> string \<Rightarrow> bool" where
  "is_dot c cs = (c = CHR ''.'' \<and> (cs = [] \<or> hd cs = CHR ''/''))"

definition is_dotdot :: "char \<Rightarrow> string \<Rightarrow> bool" where
  "is_dotdot c cs =
     (c = CHR ''.'' \<and> hd cs = CHR ''.'' \<and> (tl cs = [] \<or> hd (tl cs) = CHR ''/''))"

function clean_loop :: "bool \<Rightarrow> string \<Rightarrow> string \<Rightarrow> nat \<Rightarrow> string \<times> nat" where
  "clean_loop rooted [] out dotdot = (out, dotdot)"
| "clean_loop rooted (c # cs) out dotdot =
     (if c = CHR ''/'' then clean_loop rooted cs out dotdot
      else if is_dot c cs then clean_loop rooted cs out dotdot
      else if is_dotdot c cs then
        (if length out > dotdot then
           clean_loop rooted (tl cs) (take (backtrack out dotdot (length out - 1)) out) dotdot
         else if \<not> rooted then
           (let out' = (if length out > 0 then out @ ''/'' else out) @ ''..''
            in clean_loop rooted (tl cs) out' (length out'))
         else clean_loop rooted (tl cs) out dotdot)
      else
        (let out' = (if rooted \<and> length out \<noteq> 1 \<or> \<not> rooted \<and> length out \<noteq> 0
                     then out @ ''/'' else out)
         in clean_loop rooted (dropWhile (\<lambda>x. x \<noteq> CHR ''/'') cs)
              (out' @ c # takeWhile (\<lambda>x. x \<noteq> CHR ''/'') cs) dotdot))"
  by pat_completeness auto
termination
  by (relation "measure (\<lambda>(rooted, rest, out, dotdot). length rest)")
     (auto simp: less_Suc_eq_le length_dropWhile_le)

definition Clean :: "string \<Rightarrow> string" where
  "Clean path =
     (if path = [] then ''.''
      else
        let rooted = (hd path = CHR ''/'');
            out = (if rooted then fst (clean_loop rooted (tl path) ''/'' 1)
                   else fst (clean_loop rooted path [] 0))
        in if length out = 0 then ''.'' else out)"

definition join_step :: "string \<Rightarrow> string \<Rightarrow> string" where
  "join_step e buf =
     (if length buf > 0 \<or> e \<noteq> []
      then (if length buf > 0 then buf @ ''/'' else buf) @ e
      else buf)"

definition path_Join :: "string list \<Rightarrow> string" where
  "path_Join elem =
     (if sum_list (map length elem) = 0 then []
      else Clean (fold join_step elem []))"



section \<open>The template context\<close>

text \<open>
  The interface \<open>TemplateContext\<close> has two methods without arguments; a value of it is
  the pair of their results. \<open>ValidationContext\<close> implements it with its two fields.
\<close>

record TemplateContext =
  getFromAddress :: string
  getBaseURL :: string

record ValidationContext =
  FromAddress :: string
  BaseURL :: string

definition ValidationContext_methods :: "ValidationContext \<Rightarrow> TemplateContext" where
  "ValidationContext_methods vc =
     \<lparr>getFromAddress = FromAddress vc, getBaseURL = ValidationContext.BaseURL vc\<rparr>"

text \<open>
  Modelled from the spec: the struct \<open>BaseRecipient\<close> and the constant
  \<open>RecipientParameter\<close> are declared in other files of the repository (the models of
  recipients and campaigns). The spec gives a recipient the fields email, first name,
  last name and position (the four \<open>ValidateTemplate\<close> sets), and \<open>rid\<close> as the key of
  the query parameter. No theorem below depends on the value of the key.
\<close>

record BaseRecipient =
  Email :: string
  FirstName :: string
  LastName :: string
  Position :: string

definition RecipientParameter :: string where
  "RecipientParameter = ''rid''"

record PhishingTemplateContext =
  From :: string
  URL :: string
  Tracker :: string
  TrackingURL :: string
  RId :: string
  BaseURL :: string
  BaseRecipient :: BaseRecipient

text \<open>The zero value \<open>PhishingTemplateContext{}\<close>: every string field is empty.\<close>

definition zero_PhishingTemplateContext :: PhishingTemplateContext where
  "zero_PhishingTemplateContext =
     \<lparr>From = [], URL = [], Tracker = [], TrackingURL = [], RId = [], BaseURL = [],
      BaseRecipient = \<lparr>Email = [], FirstName = [], LastName = [], Position = []\<rparr>\<rparr>"

text \<open>
  The \<open>data interface{}\<close> a template is executed with is a recipient (the base URL
  template) or a context (a template body under validation).
\<close>

datatype tdata = RecipientData BaseRecipient | ContextData PhishingTemplateContext

subsection \<open>The clock and \<open>hora\<close>\<close>

text \<open>
  A reading of \<open>time.Now()\<close> is the minute of the day; \<open>Format("15:04")\<close> prints the
  hour and the minute with two digits each. A \<open>Clock\<close> gives the readings of one template
  execution: \<open>clock k\<close> is what the \<open>k\<close>-th call of \<open>time.Now()\<close> returns. A
  \<open>FuncMap\<close> maps a name to a function without arguments, given by the string each of
  its calls returns.
\<close>

type_synonym Clock = "nat \<Rightarrow> nat"

type_synonym FuncMap = "(string \<times> (nat \<Rightarrow> string)) list"

definition digit :: "nat \<Rightarrow> char" where
  "digit d = char_of (48 + d)"

definition Format_15_04 :: "nat \<Rightarrow> string" where
  "Format_15_04 t =
     (let hour = (t div 60) mod 24; minute = t mod 60
      in [digit (hour div 10), digit (hour mod 10), CHR '':'',
          digit (minute div 10), digit (minute mod 10)])"

definition currentTimeHHMM :: "Clock \<Rightarrow> nat \<Rightarrow> string" where
  "currentTimeHHMM clock k = Format_15_04 (clock k)"

subsection \<open>The library and the attachment model\<close>

text \<open>
  The functions the two files call and do not define: \<open>mail.ParseAddress\<close>, the parser
  and the executor of \<open>text/template\<close> (\<open>'tmpl\<close> is a parsed template together with its
  function map), \<open>url.Parse\<close>, \<open>URL.Query\<close>, \<open>Values.Encode\<close> and \<open>URL.String\<close>
  of \<open>net/url\<close>, and \<open>Attachment.Validate\<close> of the repository's attachment model
  (\<open>'att\<close> is an attachment). The repository's functions take them as a parameter, so a
  theorem stated for every \<open>L\<close> holds whatever these functions compute. A call that
  fails returns \<open>Inl\<close> of its error.
\<close>

record ('tmpl, 'att) deps =
  mail_ParseAddress :: "string \<Rightarrow> error + Address"
  template_Parse :: "FuncMap \<Rightarrow> string \<Rightarrow> error + 'tmpl"
  template_Execute :: "'tmpl \<Rightarrow> tdata \<Rightarrow> error + string"
  url_Parse :: "string \<Rightarrow> error + URL"
  URL_Query :: "URL \<Rightarrow> Values"
  Values_Encode :: "Values \<Rightarrow> string"
  URL_String :: "URL \<Rightarrow> string"
  Attachment_Validate :: "'att \<Rightarrow> error option"

subsection \<open>\<open>ExecuteTemplate\<close>\<close>

definition ExecuteTemplate ::
  "('tmpl, 'att) deps \<Rightarrow> Clock \<Rightarrow> string \<Rightarrow> tdata \<Rightarrow> string \<times> error option" where
  "ExecuteTemplate L clock body data =
     (let funcMap = [(''hora'', currentTimeHHMM clock)]
      in case template_Parse L funcMap body of
           Inl err \<Rightarrow> ([], Some (Errorf ''error parsing template'' err))
         | Inr tmpl \<Rightarrow>
             (case template_Execute L tmpl data of
                Inl err \<Rightarrow> ([], Some (Errorf ''error executing template'' err))
              | Inr buff \<Rightarrow> (buff, None)))"

subsection \<open>\<open>NewPhishingTemplateContext\<close>\<close>

text \<open>
  The function parses the templated URL three times (\<open>baseURL\<close>, \<open>phishURL\<close>,
  \<open>trackingURL\<close>) and drops the error of the second and third call. \<open>url.Parse\<close> is a
  function of its argument, so the three calls return equal structs; the model binds the
  result of the first to all three. Each is a struct of its own, so an assignment to a
  field of one leaves the others as parsed.
\<close>

definition quote :: "string \<Rightarrow> string" where
  "quote s = [CHR 0x27] @ s @ [CHR 0x27]"

definition tracker_markup :: "string \<Rightarrow> string" where
  "tracker_markup src =
     ''<img alt='' @ quote [] @ '' style='' @ quote ''display: none'' @ '' src='' @
     quote src @ ''/>''"

definition NewPhishingTemplateContext ::
  "('tmpl, 'att) deps \<Rightarrow> Clock \<Rightarrow> TemplateContext \<Rightarrow> BaseRecipient \<Rightarrow> string \<Rightarrow>
   PhishingTemplateContext \<times> error option" where
  "NewPhishingTemplateContext L clock ctx r rid =
     (let fromAddr = getFromAddress ctx
      in case mail_ParseAddress L fromAddr of
           Inl err \<Rightarrow>
             (zero_PhishingTemplateContext,
              Some (Errorf (''failed to parse from address '' @ quote fromAddr) err))
         | Inr f \<Rightarrow>
             (let fn = (if Address.Name f = [] then Address f else Address.Name f)
              in case ExecuteTemplate L clock (getBaseURL ctx) (RecipientData r) of
                   (_, Some err) \<Rightarrow>
                     (zero_PhishingTemplateContext,
                      Some (Errorf ''failed to execute base URL template'' err))
                 | (templateURL, None) \<Rightarrow>
                     (case url_Parse L templateURL of
                        Inl err \<Rightarrow>
                          (zero_PhishingTemplateContext,
                           Some (Errorf (''failed to parse templated base URL '' @
                                         quote templateURL) err))
                      | Inr u \<Rightarrow>
                          (let baseURL = u\<lparr>Path := [], RawQuery := []\<rparr>;
                               q = Values_Set (URL_Query L u) RecipientParameter rid;
                               phishURL = u\<lparr>RawQuery := Values_Encode L q\<rparr>;
                               trackingURL =
                                 u\<lparr>Path := path_Join [Path u, ''/track''],
                                   RawQuery := Values_Encode L q\<rparr>
                           in (\<lparr>From = fn,
                                URL = URL_String L phishURL,
                                Tracker = tracker_markup (URL_String L trackingURL),
                                TrackingURL = URL_String L trackingURL,
                                RId = rid,
                                BaseURL = URL_String L baseURL,
                                BaseRecipient = r\<rparr>, None)))))"

subsection \<open>\<open>ValidateTemplate\<close>\<close>

text \<open>
  \<open>clock1\<close> is the clock of the execution of the base URL template inside
  \<open>NewPhishingTemplateContext\<close>, \<open>clock2\<close> the clock of the execution of the body. Of
  the dummy \<open>Result\<close> only the fields \<open>BaseRecipient\<close> and \<open>RId\<close> are read.
\<close>

definition ValidateTemplate ::
  "('tmpl, 'att) deps \<Rightarrow> Clock \<Rightarrow> Clock \<Rightarrow> string \<Rightarrow> error option" where
  "ValidateTemplate L clock1 clock2 body =
     (let vc = \<lparr>FromAddress = ''foo@bar.com'', BaseURL = ''http://example.com''\<rparr>;
          td_BaseRecipient = \<lparr>Email = ''foo@bar.com'', FirstName = ''Foo'',
                              LastName = ''Bar'', Position = ''Test''\<rparr>;
          td_RId = ''validate123''
      in case NewPhishingTemplateContext L clock1 (ValidationContext_methods vc)
                td_BaseRecipient td_RId of
           (_, Some err) \<Rightarrow> Some (Errorf ''error creating validation context'' err)
         | (ptx, None) \<Rightarrow>
             (case ExecuteTemplate L clock2 body (ContextData ptx) of
                (_, Some err) \<Rightarrow> Some (Errorf ''template validation failed'' err)
              | (_, None) \<Rightarrow> None))"

section \<open>Templates\<close>

text \<open>
  The identifiers and the modification date are not computed with; they are integers.
\<close>

record 'att Template =
  Id :: int
  UserId :: int
  Name :: string
  EnvelopeSender :: string
  Subject :: string
  Text :: string
  HTML :: string
  ModifiedDate :: int
  Attachments :: "'att list"
  HeaderProfile :: string

text \<open>The loop over the attachments returns the first error.\<close>

fun validate_attachments :: "('att \<Rightarrow> error option) \<Rightarrow> 'att list \<Rightarrow> error option" where
  "validate_attachments validate [] = None"
| "validate_attachments validate (a # as) =
     (case validate a of
        Some err \<Rightarrow> Some err
      | None \<Rightarrow> validate_attachments validate as)"

text \<open>
  The \<open>switch\<close> of \<open>Validate\<close>: the first case that holds is taken, and the third returns
  only when the envelope sender does not parse.
\<close>

definition validate_switch :: "('tmpl, 'att) deps \<Rightarrow> 'att Template \<Rightarrow> error option" where
  "validate_switch L t =
     (if Template.Name t = [] then Some ErrTemplateNameNotSpecified
      else if Text t = [] \<and> HTML t = [] then Some ErrTemplateMissingParameter
      else if EnvelopeSender t \<noteq> [] then
        (case mail_ParseAddress L (EnvelopeSender t) of
           Inl err \<Rightarrow> Some err
         | Inr _ \<Rightarrow> None)
      else None)"

text \<open>
  \<open>Validate\<close> validates the HTML body (clocks \<open>c1\<close>, \<open>c2\<close>) and then the text body
  (clocks \<open>c3\<close>, \<open>c4\<close>).
\<close>

definition Validate ::
  "('tmpl, 'att) deps \<Rightarrow> Clock \<Rightarrow> Clock \<Rightarrow> Clock \<Rightarrow> Clock \<Rightarrow> 'att Template \<Rightarrow>
   error option" where
  "Validate L c1 c2 c3 c4 t =
     (if HeaderProfile t \<noteq> [] \<and> \<not> snd (lookup_profile (HeaderProfile t))
      then Some ErrInvalidHeaderProfile
      else
        (case validate_switch L t of
           Some err \<Rightarrow> Some err
         | None \<Rightarrow>
             (case ValidateTemplate L c1 c2 (HTML t) of
                Some err \<Rightarrow> Some err
              | None \<Rightarrow>
                  (case ValidateTemplate L c3 c4 (Text t) of
                     Some err \<Rightarrow> Some err
                   | None \<Rightarrow>
                       validate_attachments (Attachment_Validate L) (Attachments t)))))"

section \<open>A model of the library\<close>

text \<open>
  An executable model of the library functions, used to run the repository's functions
  on concrete inputs. \<open>net/url\<close> and the parts of \<open>net/mail\<close> and \<open>text/template\<close>
  that the inputs below exercise follow the Go sources, function by function; an input
  that needs a part that is not modelled is answered with the error \<open>not_modelled\<close>
  instead of a result.
\<close>

definition not_modelled :: error where
  "not_modelled = LibError ''not modelled''"

subsection \<open>Bytes\<close>

definition byte :: "char \<Rightarrow> nat" where
  "byte c = of_char c"

definition is_lower :: "char \<Rightarrow> bool" where
  "is_lower c = (97 \<le> byte c \<and> byte c \<le> 122)"

definition is_upper :: "char \<Rightarrow> bool" where
  "is_upper c = (65 \<le> byte c \<and> byte c \<le> 90)"

definition is_digit :: "char \<Rightarrow> bool" where
  "is_digit c = (48 \<le> byte c \<and> byte c \<le> 57)"

definition is_alnum :: "char \<Rightarrow> bool" where
  "is_alnum c = (is_lower c \<or> is_upper c \<or> is_digit c)"

definition to_lower :: "char \<Rightarrow> char" where
  "to_lower c = (if is_upper c then char_of (byte c + 32) else c)"

definition ishex :: "char \<Rightarrow> bool" where
  "ishex c = (is_digit c \<or> (97 \<le> byte c \<and> byte c \<le> 102) \<or> (65 \<le> byte c \<and> byte c \<le> 70))"

definition unhex :: "char \<Rightarrow> nat" where
  "unhex c =
     (if is_digit c then byte c - 48
      else if 97 \<le> byte c \<and> byte c \<le> 102 then byte c - 97 + 10
      else if 65 \<le> byte c \<and> byte c \<le> 70 then byte c - 65 + 10
      else 0)"

definition upperhex :: string where
  "upperhex = ''0123456789ABCDEF''"

text \<open>\<open>strings.Cut\<close> with a separator of one byte.\<close>

definition Cut :: "string \<Rightarrow> char \<Rightarrow> string \<times> string \<times> bool" where
  "Cut s sep =
     (takeWhile (\<lambda>x. x \<noteq> sep) s, drop 1 (dropWhile (\<lambda>x. x \<noteq> sep) s), sep \<in> set s)"

subsection \<open>\<open>net/url\<close>: escaping\<close>

datatype encoding =
    encodePath
  | encodePathSegment
  | encodeHost
  | encodeZone
  | encodeUserPassword
  | encodeQueryComponent
  | encodeFragment

definition shouldEscape :: "char \<Rightarrow> encoding \<Rightarrow> bool" where
  "shouldEscape c mode =
     (if is_alnum c then False
      else if (mode = encodeHost \<or> mode = encodeZone) \<and>
              c \<in> set (''!$&()+,;=:[]<>*'' @ [CHR 0x27, CHR 0x22]) then False
      else if c \<in> set ''-_.~'' then False
      else if c \<in> set ''$&+,/:;=?@'' \<and> mode = encodePath then c = CHR ''?''
      else if c \<in> set ''$&+,/:;=?@'' \<and> mode = encodePathSegment then c \<in> set ''/;,?''
      else if c \<in> set ''$&+,/:;=?@'' \<and> mode = encodeUserPassword then c \<in> set ''@/?:''
      else if c \<in> set ''$&+,/:;=?@'' \<and> mode = encodeQueryComponent then True
      else if c \<in> set ''$&+,/:;=?@'' \<and> mode = encodeFragment then False
      else if mode = encodeFragment \<and> c \<in> set ''!()*'' then False
      else True)"

text \<open>
  \<open>escape\<close>: a space becomes \<open>+\<close> in a query component, a byte that
  \<open>shouldEscape\<close> becomes \<open>%\<close> and two upper-case hex digits, every other byte is
  kept. (The source counts first and returns the string itself when nothing is to be
  escaped.)
\<close>

definition escape_byte :: "encoding \<Rightarrow> char \<Rightarrow> string" where
  "escape_byte mode c =
     (if c = CHR '' '' \<and> mode = encodeQueryComponent then ''+''
      else if shouldEscape c mode
      then [CHR ''%'', upperhex ! (byte c div 16), upperhex ! (byte c mod 16)]
      else [c])"

definition escape :: "string \<Rightarrow> encoding \<Rightarrow> string" where
  "escape s mode = concat (map (escape_byte mode) s)"

text \<open>
  \<open>unescape\<close>: the first loop checks the string (\<open>unescape_check\<close> returns the error),
  the second decodes it.
\<close>

fun unescape_check :: "encoding \<Rightarrow> string \<Rightarrow> error option" where
  "unescape_check mode [] = None"
| "unescape_check mode (c # cs) =
     (if c = CHR ''%'' then
        (case cs of
           a # b # rest \<Rightarrow>
             if \<not> ishex a \<or> \<not> ishex b then Some (LibError ''invalid URL escape'')
             else if mode = encodeHost \<and> unhex a < 8 \<and> [a, b] \<noteq> ''25''
             then Some (LibError ''invalid URL escape'')
             else if mode = encodeZone \<and> [a, b] \<noteq> ''25'' \<and>
                     char_of (unhex a * 16 + unhex b) \<noteq> CHR '' '' \<and>
                     shouldEscape (char_of (unhex a * 16 + unhex b)) encodeHost
             then Some (LibError ''invalid URL escape'')
             else unescape_check mode rest
         | _ \<Rightarrow> Some (LibError ''invalid URL escape''))
      else if c = CHR ''+'' then unescape_check mode cs
      else if (mode = encodeHost \<or> mode = encodeZone) \<and> byte c < 128 \<and>
              shouldEscape c encodeHost
      then Some (LibError ''invalid character in host name'')
      else unescape_check mode cs)"

fun unescape_decode :: "encoding \<Rightarrow> string \<Rightarrow> string" where
  "unescape_decode mode [] = []"
| "unescape_decode mode (c # cs) =
     (if c = CHR ''%'' then
        (case cs of
           a # b # rest \<Rightarrow> char_of (unhex a * 16 + unhex b) # unescape_decode mode rest
         | _ \<Rightarrow> [])
      else if c = CHR ''+'' then
        (if mode = encodeQueryComponent then CHR '' '' else CHR ''+'') # unescape_decode mode cs
      else c # unescape_decode mode cs)"

definition unescape :: "string \<Rightarrow> encoding \<Rightarrow> error + string" where
  "unescape s mode =
     (case unescape_check mode s of
        Some err \<Rightarrow> Inl err
      | None \<Rightarrow> Inr (unescape_decode mode s))"

definition QueryEscape :: "string \<Rightarrow> string" where
  "QueryEscape s = escape s encodeQueryComponent"

definition QueryUnescape :: "string \<Rightarrow> error + string" where
  "QueryUnescape s = unescape s encodeQueryComponent"

subsection \<open>\<open>net/url\<close>: \<open>Parse\<close>\<close>

definition zero_URL :: URL where
  "zero_URL =
     \<lparr>Scheme = [], Opaque = [], User = None, Host = [], Path = [], RawPath = [],
      OmitHost = False, ForceQuery = False, RawQuery = [], Fragment = [], RawFragment = []\<rparr>"

definition HasPrefix :: "string \<Rightarrow> string \<Rightarrow> bool" where
  "HasPrefix s pre = (take (length pre) s = pre)"

text \<open>The parts of a string before and after the last occurrence of a byte it contains.\<close>

definition before_last :: "string \<Rightarrow> char \<Rightarrow> string" where
  "before_last s c = rev (drop 1 (dropWhile (\<lambda>x. x \<noteq> c) (rev s)))"

definition after_last :: "string \<Rightarrow> char \<Rightarrow> string" where
  "after_last s c = rev (takeWhile (\<lambda>x. x \<noteq> c) (rev s))"

text \<open>\<open>getScheme\<close>: \<open>i\<close> is the index of the byte read, \<open>raw\<close> the whole string.\<close>

fun getScheme_loop :: "nat \<Rightarrow> string \<Rightarrow> string \<Rightarrow> error + (string \<times> string)" where
  "getScheme_loop i [] raw = Inr ([], raw)"
| "getScheme_loop i (c # cs) raw =
     (if is_lower c \<or> is_upper c then getScheme_loop (Suc i) cs raw
      else if is_digit c \<or> c = CHR ''+'' \<or> c = CHR ''-'' \<or> c = CHR ''.'' then
        (if i = 0 then Inr ([], raw) else getScheme_loop (Suc i) cs raw)
      else if c = CHR '':'' then
        (if i = 0 then Inl (LibError ''missing protocol scheme'') else Inr (take i raw, cs))
      else Inr ([], raw))"

definition getScheme :: "string \<Rightarrow> error + (string \<times> string)" where
  "getScheme rawURL = getScheme_loop 0 rawURL rawURL"

definition validOptionalPort :: "string \<Rightarrow> bool" where
  "validOptionalPort port =
     (if port = [] then True
      else if hd port \<noteq> CHR '':'' then False
      else list_all is_digit (tl port))"

definition validUserinfo :: "string \<Rightarrow> bool" where
  "validUserinfo s =
     list_all (\<lambda>r. is_alnum r \<or> r \<in> set (''-._:~!$&()+,;=%@*'' @ [CHR 0x27])) s"

text \<open>
  \<open>parseHost\<close>. A host with a \<open>[\<close> is read as an IP literal, or refused, depending on
  where the bracket is and on the release of the library; it is not modelled.
\<close>

definition parseHost :: "string \<Rightarrow> error + string" where
  "parseHost host =
     (if CHR ''['' \<in> set host then Inl not_modelled
      else if CHR '':'' \<in> set host \<and> \<not> validOptionalPort (CHR '':'' # after_last host (CHR '':''))
      then Inl (LibError ''invalid port after host'')
      else unescape host encodeHost)"

definition parseAuthority :: "string \<Rightarrow> error + (Userinfo option \<times> string)" where
  "parseAuthority authority =
     (case (if CHR ''@'' \<in> set authority then parseHost (after_last authority (CHR ''@''))
            else parseHost authority) of
        Inl err \<Rightarrow> Inl err
      | Inr host \<Rightarrow>
          if CHR ''@'' \<notin> set authority then Inr (None, host)
          else
            let userinfo = before_last authority (CHR ''@'')
            in if \<not> validUserinfo userinfo then Inl (LibError ''net/url: invalid userinfo'')
               else if CHR '':'' \<notin> set userinfo then
                 (case unescape userinfo encodeUserPassword of
                    Inl err \<Rightarrow> Inl err
                  | Inr name \<Rightarrow>
                      Inr (Some \<lparr>username = name, password = [], passwordSet = False\<rparr>, host))
               else
                 (let (username0, password0, found) = Cut userinfo (CHR '':'')
                  in case unescape username0 encodeUserPassword of
                       Inl err \<Rightarrow> Inl err
                     | Inr name \<Rightarrow>
                         (case unescape password0 encodeUserPassword of
                            Inl err \<Rightarrow> Inl err
                          | Inr pw \<Rightarrow>
                              Inr (Some \<lparr>username = name, password = pw,
                                         passwordSet = True\<rparr>, host))))"

definition setPath :: "URL \<Rightarrow> string \<Rightarrow> error + URL" where
  "setPath u p =
     (case unescape p encodePath of
        Inl err \<Rightarrow> Inl err
      | Inr path \<Rightarrow>
          Inr (u\<lparr>Path := path, RawPath := (if p = escape path encodePath then [] else p)\<rparr>))"

definition setFragment :: "URL \<Rightarrow> string \<Rightarrow> error + URL" where
  "setFragment u f =
     (case unescape f encodeFragment of
        Inl err \<Rightarrow> Inl err
      | Inr frag \<Rightarrow>
          Inr (u\<lparr>Fragment := frag,
                 RawFragment := (if f = escape frag encodeFragment then [] else f)\<rparr>))"

text \<open>The unexported \<open>parse\<close>, as \<open>Parse\<close> calls it (\<open>viaRequest\<close> is false).\<close>

definition parse :: "string \<Rightarrow> error + URL" where
  "parse rawURL =
     (if list_ex (\<lambda>b. byte b < 32 \<or> byte b = 127) rawURL
      then Inl (LibError ''net/url: invalid control character in URL'')
      else if rawURL = ''*'' then Inr (zero_URL\<lparr>Path := ''*''\<rparr>)
      else
        (case getScheme rawURL of
           Inl err \<Rightarrow> Inl err
         | Inr (scheme0, rest0) \<Rightarrow>
             (let scheme = map to_lower scheme0;
                  force = (rest0 \<noteq> [] \<and> last rest0 = CHR ''?'' \<and>
                           count_list rest0 (CHR ''?'') = 1);
                  rest = (if force then butlast rest0 else fst (Cut rest0 (CHR ''?'')));
                  rawQuery = (if force then [] else fst (snd (Cut rest0 (CHR ''?''))));
                  url = zero_URL\<lparr>Scheme := scheme, ForceQuery := force, RawQuery := rawQuery\<rparr>
              in if \<not> HasPrefix rest ''/'' \<and> scheme \<noteq> [] then Inr (url\<lparr>Opaque := rest\<rparr>)
                 else if \<not> HasPrefix rest ''/'' \<and> CHR '':'' \<in> set (fst (Cut rest (CHR ''/'')))
                 then Inl (LibError ''first path segment in URL cannot contain colon'')
                 else if (scheme \<noteq> [] \<or> \<not> HasPrefix rest ''///'') \<and> HasPrefix rest ''//'' then
                   (let authority = takeWhile (\<lambda>x. x \<noteq> CHR ''/'') (drop 2 rest);
                        rest' = dropWhile (\<lambda>x. x \<noteq> CHR ''/'') (drop 2 rest)
                    in case parseAuthority authority of
                         Inl err \<Rightarrow> Inl err
                       | Inr (user, host) \<Rightarrow> setPath (url\<lparr>User := user, Host := host\<rparr>) rest')
                 else if scheme \<noteq> [] \<and> HasPrefix rest ''/''
                 then setPath (url\<lparr>OmitHost := True\<rparr>) rest
                 else setPath url rest)))"

definition Parse :: "string \<Rightarrow> error + URL" where
  "Parse rawURL =
     (let (u, frag, found) = Cut rawURL (CHR ''#'')
      in case parse u of
           Inl err \<Rightarrow> Inl (Errorf ''parse'' err)
         | Inr url \<Rightarrow>
             if frag = [] then Inr url
             else (case setFragment url frag of
                     Inl err \<Rightarrow> Inl (Errorf ''parse'' err)
                   | Inr url' \<Rightarrow> Inr url'))"

subsection \<open>\<open>net/url\<close>: \<open>String\<close>\<close>

definition validEncoded :: "string \<Rightarrow> encoding \<Rightarrow> bool" where
  "validEncoded s mode =
     list_all (\<lambda>c. c \<in> set (''!$&()+,;=:@[]%*'' @ [CHR 0x27]) \<or> \<not> shouldEscape c mode) s"

definition EscapedPath :: "URL \<Rightarrow> string" where
  "EscapedPath u =
     (if RawPath u \<noteq> [] \<and> validEncoded (RawPath u) encodePath \<and>
         unescape (RawPath u) encodePath = Inr (Path u)
      then RawPath u
      else if Path u = ''*'' then ''*''
      else escape (Path u) encodePath)"

definition EscapedFragment :: "URL \<Rightarrow> string" where
  "EscapedFragment u =
     (if RawFragment u \<noteq> [] \<and> validEncoded (RawFragment u) encodeFragment \<and>
         unescape (RawFragment u) encodeFragment = Inr (Fragment u)
      then RawFragment u
      else escape (Fragment u) encodeFragment)"

definition Userinfo_String :: "Userinfo \<Rightarrow> string" where
  "Userinfo_String u =
     escape (username u) encodeUserPassword @
     (if passwordSet u then '':'' @ escape (password u) encodeUserPassword else [])"

text \<open>\<open>URL.String\<close>; \<open>buf\<close> is the builder after each of its stages.\<close>

definition String :: "URL \<Rightarrow> string" where
  "String u =
     (let buf1 = (if Scheme u \<noteq> [] then Scheme u @ '':'' else []);
          buf2 =
            (if Opaque u \<noteq> [] then buf1 @ Opaque u
             else
               let buf3 =
                     (if Scheme u \<noteq> [] \<or> Host u \<noteq> [] \<or> User u \<noteq> None then
                        (if OmitHost u \<and> Host u = [] \<and> User u = None then buf1
                         else
                           buf1 @
                           (if Host u \<noteq> [] \<or> Path u \<noteq> [] \<or> User u \<noteq> None then ''//'' else []) @
                           (case User u of None \<Rightarrow> [] | Some ui \<Rightarrow> Userinfo_String ui @ ''@'') @
                           (if Host u \<noteq> [] then escape (Host u) encodeHost else []))
                      else buf1);
                   path = EscapedPath u;
                   buf4 = (if path \<noteq> [] \<and> hd path \<noteq> CHR ''/'' \<and> Host u \<noteq> []
                           then buf3 @ ''/'' else buf3);
                   buf5 = (if buf4 = [] \<and> CHR '':'' \<in> set (fst (Cut path (CHR ''/'')))
                           then buf4 @ ''./'' else buf4)
               in buf5 @ path);
          buf6 = (if ForceQuery u \<or> RawQuery u \<noteq> [] then buf2 @ ''?'' @ RawQuery u else buf2)
      in if Fragment u \<noteq> [] then buf6 @ ''#'' @ EscapedFragment u else buf6)"

subsection \<open>\<open>net/url\<close>: \<open>Query\<close> and \<open>Encode\<close>\<close>

definition Values_Get :: "Values \<Rightarrow> string \<Rightarrow> string list" where
  "Values_Get v key = (case map_of v key of None \<Rightarrow> [] | Some vs \<Rightarrow> vs)"

lemma length_rest_of_Cut:
  "q \<noteq> [] \<Longrightarrow> length (dropWhile P q) - Suc 0 < length q"
  using length_dropWhile_le [of P q] by (cases q) auto

function parseQuery :: "Values \<Rightarrow> string \<Rightarrow> Values" where
  "parseQuery m query =
     (if query = [] then m
      else
        let key0 = fst (Cut query (CHR ''&''));
            rest = fst (snd (Cut query (CHR ''&'')))
        in if CHR '';'' \<in> set key0 then parseQuery m rest
           else if key0 = [] then parseQuery m rest
           else
             (case QueryUnescape (fst (Cut key0 (CHR ''=''))) of
                Inl err \<Rightarrow> parseQuery m rest
              | Inr key \<Rightarrow>
                  (case QueryUnescape (fst (snd (Cut key0 (CHR ''='')))) of
                     Inl err \<Rightarrow> parseQuery m rest
                   | Inr val \<Rightarrow>
                       parseQuery (AList.update key (Values_Get m key @ [val]) m) rest)))"
  by pat_completeness auto
termination
  by (relation "measure (\<lambda>(m, query). length query)")
     (auto simp: Cut_def length_rest_of_Cut)

declare parseQuery.simps [simp del]

definition Query :: "URL \<Rightarrow> Values" where
  "Query u = parseQuery [] (RawQuery u)"

definition encode_pair :: "string \<Rightarrow> string \<Rightarrow> string \<Rightarrow> string" where
  "encode_pair keyEscaped val buf =
     (if length buf > 0 then buf @ ''&'' else buf) @ keyEscaped @ ''='' @ QueryEscape val"

definition Encode :: "Values \<Rightarrow> string" where
  "Encode v =
     (if length v = 0 then []
      else fold (\<lambda>k buf. fold (encode_pair (QueryEscape k)) (Values_Get v k) buf)
             (sort (map fst v)) [])"

text \<open>
  For the proof that \<open>Query\<close> reads back what \<open>Encode\<close> writes: the encoding of one
  key and value, the map store of \<open>parseQuery\<close>, and the encodings of a list of pairs
  joined by \<open>&\<close>.
\<close>

definition piece :: "string \<times> string \<Rightarrow> string" where
  "piece p = QueryEscape (fst p) @ ''='' @ QueryEscape (snd p)"

definition add_value :: "string \<times> string \<Rightarrow> Values \<Rightarrow> Values" where
  "add_value p m = AList.update (fst p) (Values_Get m (fst p) @ [snd p]) m"

fun joined :: "(string \<times> string) list \<Rightarrow> string" where
  "joined [] = []"
| "joined [p] = piece p"
| "joined (p # q # ps) = piece p @ CHR ''&'' # joined (q # ps)"

text \<open>
  The query parameters of a raw query, in the words of the spec: the raw query is split
  at every \<open>&\<close>, and a part is a parameter when it is not empty, has no semicolon, and
  its key (what is before its first \<open>=\<close>) and its value (what is after) unescape. The
  values of a key are those of its parameters, in their order.
\<close>

primrec split_amp :: "string \<Rightarrow> string list" where
  "split_amp [] = [[]]"
| "split_amp (c # cs) =
     (if c = CHR ''&'' then [] # split_amp cs
      else (c # hd (split_amp cs)) # tl (split_amp cs))"

definition parameter :: "string \<Rightarrow> (string \<times> string) option" where
  "parameter part =
     (if part = [] \<or> CHR '';'' \<in> set part then None
      else
        (case QueryUnescape (fst (Cut part (CHR ''=''))) of
           Inl err \<Rightarrow> None
         | Inr key \<Rightarrow>
             (case QueryUnescape (fst (snd (Cut part (CHR ''='')))) of
                Inl err \<Rightarrow> None
              | Inr val \<Rightarrow> Some (key, val))))"

definition parameters :: "string \<Rightarrow> (string \<times> string) list" where
  "parameters raw = List.map_filter parameter (split_amp raw)"

definition parameter_values :: "string \<Rightarrow> string \<Rightarrow> string list" where
  "parameter_values raw key = map snd (filter (\<lambda>p. fst p = key) (parameters raw))"

subsection \<open>\<open>net/mail\<close>: \<open>ParseAddress\<close>\<close>

text \<open>
  The parser of \<open>net/mail\<close> for the two plain forms of a mailbox, \<open>local@domain\<close> and
  \<open>display name <local@domain>\<close>, whose parts are atoms. Quoted strings, comments,
  domain literals, groups, address lists, encoded words and bytes outside printable ASCII
  are not modelled: \<open>mail_modelled\<close> is false of an input that contains what starts
  one of them. A display name that stops at an \<open>@\<close> is not modelled either (the
  releases of the library differ on it). The parser state \<open>p.s\<close> is the unread rest of
  the input.
\<close>

definition mail_modelled :: "string \<Rightarrow> bool" where
  "mail_modelled s =
     (list_all (\<lambda>c. (c = CHR 0x09 \<or> (32 \<le> byte c \<and> byte c \<le> 126)) \<and>
                     c \<notin> set (''()[]:;,'' @ [CHR 0x5C, CHR 0x22])) s \<and>
      \<not> list_ex (\<lambda>i. take 2 (drop i s) = ''=?'') [0..<length s])"

definition isVchar :: "char \<Rightarrow> bool" where
  "isVchar r = (33 \<le> byte r \<and> byte r \<le> 126)"

definition isAtext :: "char \<Rightarrow> bool \<Rightarrow> bool" where
  "isAtext r dot =
     (if r = CHR ''.'' then dot
      else if r \<in> set (''()<>[]:;@,'' @ [CHR 0x5C, CHR 0x22]) then False
      else isVchar r)"

definition skipSpace :: "string \<Rightarrow> string" where
  "skipSpace s = dropWhile (\<lambda>c. c = CHR '' '' \<or> c = CHR 0x09) s"

definition contains_dotdot :: "string \<Rightarrow> bool" where
  "contains_dotdot s = list_ex (\<lambda>i. take 2 (drop i s) = ''..'') [0..<length s]"

definition consumeAtom :: "bool \<Rightarrow> bool \<Rightarrow> string \<Rightarrow> error + (string \<times> string)" where
  "consumeAtom dot permissive s =
     (let atom = takeWhile (\<lambda>r. isAtext r dot) s;
          rest = dropWhile (\<lambda>r. isAtext r dot) s
      in if atom = [] then Inl (LibError ''mail: invalid string'')
         else if \<not> permissive \<and> hd atom = CHR ''.''
         then Inl (LibError ''mail: leading dot in atom'')
         else if \<not> permissive \<and> contains_dotdot atom
         then Inl (LibError ''mail: double dot in atom'')
         else if \<not> permissive \<and> last atom = CHR ''.''
         then Inl (LibError ''mail: trailing dot in atom'')
         else Inr (atom, rest))"

definition consumeAddrSpec :: "string \<Rightarrow> error + (string \<times> string)" where
  "consumeAddrSpec s0 =
     (let s1 = skipSpace s0
      in if s1 = [] then Inl (LibError ''mail: no addr-spec'')
         else
           (case consumeAtom True False s1 of
              Inl err \<Rightarrow> Inl err
            | Inr (localPart, s2) \<Rightarrow>
                if s2 = [] \<or> hd s2 \<noteq> CHR ''@''
                then Inl (LibError ''mail: missing @ in addr-spec'')
                else
                  (let s3 = skipSpace (tl s2)
                   in if s3 = [] then Inl (LibError ''mail: no domain in addr-spec'')
                      else
                        (case consumeAtom True False s3 of
                           Inl err \<Rightarrow> Inl err
                         | Inr (domain, s4) \<Rightarrow> Inr (localPart @ ''@'' @ domain, s4)))))"

text \<open>
  \<open>consumePhrase\<close>: the loop reads words until the input ends or no atom starts; it
  returns the words read, the unread rest and whether it stopped on an error.
\<close>

function consumePhrase_loop :: "string list \<Rightarrow> string \<Rightarrow> string list \<times> string \<times> bool" where
  "consumePhrase_loop words s =
     (let s1 = skipSpace s
      in if s1 = [] then (words, s1, False)
         else if takeWhile (\<lambda>r. isAtext r True) s1 = [] then (words, s1, True)
         else consumePhrase_loop (words @ [takeWhile (\<lambda>r. isAtext r True) s1])
                (dropWhile (\<lambda>r. isAtext r True) s1))"
  by pat_completeness auto
termination
proof (relation "measure (\<lambda>(words, s). length s)")
  fix words :: "string list" and s s1 :: string
  assume s1: "s1 = skipSpace s" and ne: "takeWhile (\<lambda>r. isAtext r True) s1 \<noteq> []"
  have "length (dropWhile (\<lambda>r. isAtext r True) s1) < length s1"
    using ne takeWhile_dropWhile_id [of "\<lambda>r. isAtext r True" s1]
    by (metis length_append length_greater_0_conv less_add_same_cancel2)
  moreover have "length s1 \<le> length s"
    unfolding s1 skipSpace_def by (rule length_dropWhile_le)
  ultimately show "((words @ [takeWhile (\<lambda>r. isAtext r True) s1],
                     dropWhile (\<lambda>r. isAtext r True) s1), (words, s))
                   \<in> measure (\<lambda>(words, s). length s)"
    by simp
qed simp

declare consumePhrase_loop.simps [simp del]

definition join_words :: "string list \<Rightarrow> string" where
  "join_words words =
     (case words of [] \<Rightarrow> [] | w # ws \<Rightarrow> fold (\<lambda>x buf. buf @ '' '' @ x) ws w)"

definition consumePhrase :: "string \<Rightarrow> error + (string \<times> string)" where
  "consumePhrase s =
     (let (words, rest, failed) = consumePhrase_loop [] s
      in if failed \<and> words = []
         then Inl (LibError ''mail: missing word in phrase: mail: invalid string'')
         else Inr (join_words words, rest))"

text \<open>\<open>parseAddress\<close> on an input that \<open>mail_modelled\<close> admits.\<close>

definition parseAddress :: "string \<Rightarrow> error + (Address \<times> string)" where
  "parseAddress s0 =
     (let s1 = skipSpace s0
      in if s1 = [] then Inl (LibError ''mail: no address'')
         else
           (case consumeAddrSpec s1 of
              Inr (spec, s2) \<Rightarrow> Inr (\<lparr>Address.Name = [], Address = spec\<rparr>, skipSpace s2)
            | Inl _ \<Rightarrow>
                (case (if hd s1 \<noteq> CHR ''<'' then consumePhrase s1 else Inr ([], s1)) of
                   Inl err \<Rightarrow> Inl err
                 | Inr (displayName, s2) \<Rightarrow>
                     (let s3 = skipSpace s2
                      in if s3 \<noteq> [] \<and> hd s3 = CHR ''@'' then Inl not_modelled
                         else if s3 = [] \<or> hd s3 \<noteq> CHR ''<'' then
                           (if list_all (\<lambda>r. isAtext r True) displayName
                            then Inl (LibError (''mail: missing '' @ [CHR 0x27] @ ''@'' @
                                                 [CHR 0x27] @ '' or angle-addr''))
                            else Inl (LibError ''mail: no angle-addr''))
                         else
                           (case consumeAddrSpec (tl s3) of
                              Inl err \<Rightarrow> Inl err
                            | Inr (spec, s4) \<Rightarrow>
                                if s4 = [] \<or> hd s4 \<noteq> CHR ''>''
                                then Inl (LibError ''mail: unclosed angle-addr'')
                                else Inr (\<lparr>Address.Name = displayName, Address = spec\<rparr>, tl s4))))))"

text \<open>
  \<open>%q\<close> of a string of printable ASCII and tabs without quotes and backslashes.
\<close>

definition quoted :: "string \<Rightarrow> string" where
  "quoted s =
     [CHR 0x22] @ concat (map (\<lambda>c. if c = CHR 0x09 then [CHR 0x5C, CHR ''t''] else [c]) s) @
     [CHR 0x22]"

definition ParseAddress :: "string \<Rightarrow> error + Address" where
  "ParseAddress address =
     (if \<not> mail_modelled address then Inl not_modelled
      else
        (case parseAddress address of
           Inl err \<Rightarrow> Inl err
         | Inr (addr, rest) \<Rightarrow>
             if skipSpace rest \<noteq> []
             then Inl (LibError (''mail: expected single address, got '' @
                                 quoted (skipSpace rest)))
             else Inr addr))"

subsection \<open>\<open>text/template\<close>: the lexer\<close>

text \<open>
  The template language is modelled for text, the actions that print a field chain, a
  function call or a string, and \<open>if\<close> with \<open>else\<close> and \<open>end\<close>; operands are field
  chains (\<open>.A.B\<close>), function names and double-quoted strings without escapes, and the
  functions are those of the function map and the builtin \<open>eq\<close>. Everything else of
  the language (pipes, parentheses, variables, numbers, the other keywords and builtins,
  trim markers, comments) is answered with \<open>not_modelled\<close>.

  The lexer is a state machine over the bytes. In \<open>MText\<close> it collects text up to the
  left delimiter; in \<open>MAct\<close> it is between the tokens of an action; in \<open>MField\<close> and
  \<open>MIdent\<close> it is inside a field or a word, which must end at a space, a dot or the
  right delimiter; in \<open>MStr\<close> it is inside a string. Accumulators are reversed.
\<close>

datatype tok = TSpace | TField string | TIdent string | TStr string

datatype item = IText string | IAction "tok list"

datatype mode =
    MText string
  | MAct "tok list"
  | MField "tok list" string
  | MIdent "tok list" string
  | MStr "tok list" string

definition isAlphaNumeric :: "char \<Rightarrow> bool" where
  "isAlphaNumeric r = (r = CHR ''_'' \<or> is_alnum r)"

definition is_blank :: "char \<Rightarrow> bool" where
  "is_blank r = (r = CHR '' '' \<or> r = CHR 0x09)"

definition add_text :: "string \<Rightarrow> item list \<Rightarrow> item list" where
  "add_text t acc = (if t = [] then acc else IText (rev t) # acc)"

definition add_space :: "tok list \<Rightarrow> tok list" where
  "add_space toks = (case toks of TSpace # _ \<Rightarrow> toks | _ \<Rightarrow> TSpace # toks)"

text \<open>Whether a field or a word may end before the bytes \<open>d\<close>, \<open>e\<close>.\<close>

definition ends_word :: "char \<Rightarrow> string \<Rightarrow> bool" where
  "ends_word d rest = (is_blank d \<or> d = CHR ''.'' \<or> (d = CHR ''}'' \<and> take 1 rest = ''}''))"

fun lex :: "mode \<Rightarrow> item list \<Rightarrow> string \<Rightarrow> error + item list" where
  "lex m acc [] =
     (case m of
        MText t \<Rightarrow> Inr (rev (add_text t acc))
      | _ \<Rightarrow> Inl (LibError ''unclosed action''))"
| "lex m acc [c] =
     (case m of
        MText t \<Rightarrow> Inr (rev (add_text (c # t) acc))
      | MStr toks str \<Rightarrow> Inl (LibError ''unterminated quoted string'')
      | _ \<Rightarrow> Inl (LibError ''unclosed action''))"
| "lex m acc (c # d # cs) =
     (case m of
        MText t \<Rightarrow>
          if c = CHR ''{'' \<and> d = CHR ''{'' then lex (MAct []) (add_text t acc) cs
          else lex (MText (c # t)) acc (d # cs)
      | MAct toks \<Rightarrow>
          if c = CHR ''}'' \<and> d = CHR ''}'' then lex (MText []) (IAction (rev toks) # acc) cs
          else if is_blank c then lex (MAct (add_space toks)) acc (d # cs)
          else if c = CHR ''.'' then
            (if isAlphaNumeric d \<and> \<not> is_digit d then lex (MField toks []) acc (d # cs)
             else Inl not_modelled)
          else if c = CHR 0x22 then lex (MStr toks []) acc (d # cs)
          else if isAlphaNumeric c \<and> \<not> is_digit c then
            (if isAlphaNumeric d then lex (MIdent toks [c]) acc (d # cs)
             else if ends_word d cs then lex (MAct (TIdent [c] # toks)) acc (d # cs)
             else Inl not_modelled)
          else Inl not_modelled
      | MField toks name \<Rightarrow>
          if isAlphaNumeric d then lex (MField toks (c # name)) acc (d # cs)
          else if ends_word d cs then lex (MAct (TField (rev (c # name)) # toks)) acc (d # cs)
          else Inl not_modelled
      | MIdent toks name \<Rightarrow>
          if isAlphaNumeric d then lex (MIdent toks (c # name)) acc (d # cs)
          else if ends_word d cs then lex (MAct (TIdent (rev (c # name)) # toks)) acc (d # cs)
          else Inl not_modelled
      | MStr toks str \<Rightarrow>
          if c = CHR 0x22 then lex (MAct (TStr (rev str) # toks)) acc (d # cs)
          else if c = CHR 0x5C then Inl not_modelled
          else if c = CHR 0x0A then Inl (LibError ''unterminated quoted string'')
          else lex (MStr toks (c # str)) acc (d # cs))"

subsection \<open>\<open>text/template\<close>: the parser\<close>

datatype operand = Field "string list" | Identifier string | StringLit string

type_synonym command = "operand list"

datatype node =
    TextNode string
  | ActionNode command
  | IfNode command "node list" "node list"

datatype action = Print command | If command | Else | End

definition reserved_words :: "string list" where
  "reserved_words = [''block'', ''break'', ''continue'', ''define'', ''else'', ''end'', ''if'',
               ''range'', ''nil'', ''template'', ''with'', ''true'', ''false'']"

definition builtins :: "string list" where
  "builtins = [''and'', ''call'', ''html'', ''index'', ''slice'', ''js'', ''len'', ''not'',
               ''or'', ''print'', ''printf'', ''println'', ''urlquery'', ''eq'', ''ge'',
               ''gt'', ''le'', ''lt'', ''ne'']"

text \<open>
  The operands of a command. \<open>sep\<close> says that the token before was a space (or that
  there was none): operands are separated by spaces, and a field that follows a field
  without a space continues its chain.
\<close>

fun operands :: "string list \<Rightarrow> bool \<Rightarrow> operand list \<Rightarrow> tok list \<Rightarrow> error + command" where
  "operands fs sep acc [] = Inr (rev acc)"
| "operands fs sep acc (TSpace # ts) = operands fs True acc ts"
| "operands fs sep acc (TField n # ts) =
     (if sep then operands fs False (Field [n] # acc) ts
      else (case acc of
              Field ns # acc' \<Rightarrow> operands fs False (Field (ns @ [n]) # acc') ts
            | _ \<Rightarrow> Inl not_modelled))"
| "operands fs sep acc (TIdent w # ts) =
     (if \<not> sep then Inl (LibError ''unexpected word in operand'')
      else if w \<in> set reserved_words then Inl not_modelled
      else if w \<in> set fs \<or> w = ''eq'' then operands fs False (Identifier w # acc) ts
      else if w \<in> set builtins then Inl not_modelled
      else Inl (LibError (''function not defined: '' @ w)))"
| "operands fs sep acc (TStr str # ts) =
     (if \<not> sep then Inl (LibError ''unexpected string in operand'')
      else operands fs False (StringLit str # acc) ts)"

definition pipeline :: "string list \<Rightarrow> tok list \<Rightarrow> error + command" where
  "pipeline fs ts =
     (case operands fs True [] ts of
        Inl err \<Rightarrow> Inl err
      | Inr cmd \<Rightarrow> if cmd = [] then Inl (LibError ''missing value for command'') else Inr cmd)"

definition only_space :: "tok list \<Rightarrow> bool" where
  "only_space ts = list_all (\<lambda>t. t = TSpace) ts"

definition parse_action :: "string list \<Rightarrow> tok list \<Rightarrow> error + action" where
  "parse_action fs ts0 =
     (let ts = dropWhile (\<lambda>t. t = TSpace) ts0
      in case ts of
           TIdent w # rest \<Rightarrow>
             if w = ''if'' then map_sum id If (pipeline fs rest)
             else if w = ''else'' then
               (if only_space rest then Inr Else else Inl not_modelled)
             else if w = ''end'' then
               (if only_space rest then Inr End else Inl (LibError ''unexpected token in end''))
             else map_sum id Print (pipeline fs ts)
         | _ \<Rightarrow> map_sum id Print (pipeline fs ts))"

text \<open>
  The tree is built with a stack of the open \<open>if\<close> actions: a frame holds the
  condition, the \<open>then\<close> list when the \<open>else\<close> was seen, and the list of the enclosing
  level; \<open>cur\<close> is the list being read, reversed.
\<close>

type_synonym frame = "command \<times> node list option \<times> node list"

fun build :: "string list \<Rightarrow> node list \<Rightarrow> frame list \<Rightarrow> item list \<Rightarrow> error + node list" where
  "build fs cur stack [] =
     (if stack = [] then Inr (rev cur) else Inl (LibError ''unexpected EOF''))"
| "build fs cur stack (IText t # its) = build fs (TextNode t # cur) stack its"
| "build fs cur stack (IAction ts # its) =
     (case parse_action fs ts of
        Inl err \<Rightarrow> Inl err
      | Inr (Print cmd) \<Rightarrow> build fs (ActionNode cmd # cur) stack its
      | Inr (If cmd) \<Rightarrow> build fs [] ((cmd, None, cur) # stack) its
      | Inr Else \<Rightarrow>
          (case stack of
             (cmd, None, outer) # st \<Rightarrow> build fs [] ((cmd, Some (rev cur), outer) # st) its
           | _ \<Rightarrow> Inl (LibError ''unexpected {{else}}''))
      | Inr End \<Rightarrow>
          (case stack of
             (cmd, None, outer) # st \<Rightarrow> build fs (IfNode cmd (rev cur) [] # outer) st its
           | (cmd, Some thenList, outer) # st \<Rightarrow>
               build fs (IfNode cmd thenList (rev cur) # outer) st its
           | [] \<Rightarrow> Inl (LibError ''unexpected {{end}}'')))"

text \<open>A parsed template: its tree and the function map it was parsed with.\<close>

record Template_t =
  Tree :: "node list"
  Funcs :: FuncMap

definition template_Parse_model :: "FuncMap \<Rightarrow> string \<Rightarrow> error + Template_t" where
  "template_Parse_model funcMap body =
     (case lex (MText []) [] body of
        Inl err \<Rightarrow> Inl err
      | Inr items \<Rightarrow>
          (case build (map fst funcMap) [] [] items of
             Inl err \<Rightarrow> Inl err
           | Inr tree \<Rightarrow> Inr \<lparr>Tree = tree, Funcs = funcMap\<rparr>))"

subsection \<open>\<open>text/template\<close>: execution\<close>

text \<open>
  Values are strings, booleans and the embedded recipient struct. The model knows the
  fields of the two data structs (the embedded struct's fields are promoted) and no
  methods. Printing or comparing a struct is not modelled. Execution threads the number
  \<open>k\<close> of calls made to functions of the function map, so that the \<open>k\<close>-th call
  returns the \<open>k\<close>-th string of the function.
\<close>

datatype val = VStr string | VBool bool | VRecipient BaseRecipient

definition recipient_field :: "BaseRecipient \<Rightarrow> string \<Rightarrow> val option" where
  "recipient_field r name =
     (if name = ''Email'' then Some (VStr (Email r))
      else if name = ''FirstName'' then Some (VStr (FirstName r))
      else if name = ''LastName'' then Some (VStr (LastName r))
      else if name = ''Position'' then Some (VStr (Position r))
      else None)"

definition context_field :: "PhishingTemplateContext \<Rightarrow> string \<Rightarrow> val option" where
  "context_field c name =
     (if name = ''From'' then Some (VStr (From c))
      else if name = ''URL'' then Some (VStr (URL c))
      else if name = ''Tracker'' then Some (VStr (Tracker c))
      else if name = ''TrackingURL'' then Some (VStr (TrackingURL c))
      else if name = ''RId'' then Some (VStr (RId c))
      else if name = ''BaseURL'' then Some (VStr (BaseURL c))
      else if name = ''BaseRecipient'' then Some (VRecipient (BaseRecipient c))
      else recipient_field (BaseRecipient c) name)"

definition evalField :: "val \<Rightarrow> string \<Rightarrow> error + val" where
  "evalField receiver name =
     (case (case receiver of VRecipient r \<Rightarrow> recipient_field r name | _ \<Rightarrow> None) of
        None \<Rightarrow> Inl (LibError (''cannot evaluate field '' @ name))
      | Some v \<Rightarrow> Inr v)"

fun evalFieldChain :: "val \<Rightarrow> string list \<Rightarrow> error + val" where
  "evalFieldChain receiver [] = Inr receiver"
| "evalFieldChain receiver (n # ns) =
     (case evalField receiver n of
        Inl err \<Rightarrow> Inl err
      | Inr v \<Rightarrow> evalFieldChain v ns)"

definition evalFieldNode :: "tdata \<Rightarrow> string list \<Rightarrow> error + val" where
  "evalFieldNode dot names =
     (case names of
        [] \<Rightarrow> Inl not_modelled
      | n # ns \<Rightarrow>
          (case (case dot of
                   RecipientData r \<Rightarrow> recipient_field r n
                 | ContextData c \<Rightarrow> context_field c n) of
             None \<Rightarrow> Inl (LibError (''cannot evaluate field '' @ n))
           | Some v \<Rightarrow> evalFieldChain v ns))"

text \<open>
  The builtin \<open>eq\<close>: the first argument is compared with each of the others in turn,
  and the first that is equal decides.
\<close>

fun eq_loop :: "val \<Rightarrow> val list \<Rightarrow> error + bool" where
  "eq_loop arg1 [] = Inr False"
| "eq_loop arg1 (arg # args) =
     (case (arg1, arg) of
        (VStr a, VStr b) \<Rightarrow> if a = b then Inr True else eq_loop arg1 args
      | (VBool a, VBool b) \<Rightarrow> if a = b then Inr True else eq_loop arg1 args
      | (VRecipient a, _) \<Rightarrow> Inl not_modelled
      | (_, VRecipient b) \<Rightarrow> Inl not_modelled
      | _ \<Rightarrow> Inl (LibError ''incompatible types for comparison''))"

definition eq_builtin :: "val list \<Rightarrow> error + bool" where
  "eq_builtin args =
     (case args of
        [] \<Rightarrow> Inl (LibError ''wrong number of args for eq: want at least 1 got 0'')
      | [arg1] \<Rightarrow> Inl (LibError ''missing argument for comparison'')
      | arg1 # arg2 \<Rightarrow> eq_loop arg1 arg2)"

text \<open>
  A call of a function without arguments: in argument position a function name is
  called so.
\<close>

definition call0 :: "FuncMap \<Rightarrow> string \<Rightarrow> nat \<Rightarrow> error + (val \<times> nat)" where
  "call0 funcs name k =
     (case map_of funcs name of
        Some f \<Rightarrow> Inr (VStr (f k), Suc k)
      | None \<Rightarrow>
          if name = ''eq'' then map_sum id (\<lambda>b. (VBool b, k)) (eq_builtin [])
          else Inl not_modelled)"

definition evalArg :: "FuncMap \<Rightarrow> tdata \<Rightarrow> operand \<Rightarrow> nat \<Rightarrow> error + (val \<times> nat)" where
  "evalArg funcs dot n k =
     (case n of
        Field names \<Rightarrow> map_sum id (\<lambda>v. (v, k)) (evalFieldNode dot names)
      | Identifier name \<Rightarrow> call0 funcs name k
      | StringLit str \<Rightarrow> Inr (VStr str, k))"

fun evalArgs :: "FuncMap \<Rightarrow> tdata \<Rightarrow> operand list \<Rightarrow> nat \<Rightarrow> error + (val list \<times> nat)" where
  "evalArgs funcs dot [] k = Inr ([], k)"
| "evalArgs funcs dot (n # ns) k =
     (case evalArg funcs dot n k of
        Inl err \<Rightarrow> Inl err
      | Inr (v, k') \<Rightarrow>
          (case evalArgs funcs dot ns k' of
             Inl err \<Rightarrow> Inl err
           | Inr (vs, k'') \<Rightarrow> Inr (v # vs, k'')))"

definition evalCommand :: "FuncMap \<Rightarrow> tdata \<Rightarrow> command \<Rightarrow> nat \<Rightarrow> error + (val \<times> nat)" where
  "evalCommand funcs dot cmd k =
     (case cmd of
        [] \<Rightarrow> Inl (LibError ''empty command'')
      | Field names # args \<Rightarrow>
          if args \<noteq> [] then Inl (LibError ''field has arguments but cannot be invoked'')
          else map_sum id (\<lambda>v. (v, k)) (evalFieldNode dot names)
      | StringLit str # args \<Rightarrow>
          if args \<noteq> [] then Inl (LibError ''cannot give argument to non-function'')
          else Inr (VStr str, k)
      | Identifier name # args \<Rightarrow>
          (case map_of funcs name of
             Some f \<Rightarrow>
               if args \<noteq> [] then Inl (LibError ''wrong number of args: want 0'')
               else Inr (VStr (f k), Suc k)
           | None \<Rightarrow>
               if name \<noteq> ''eq'' then Inl not_modelled
               else
                 (case evalArgs funcs dot args k of
                    Inl err \<Rightarrow> Inl err
                  | Inr (vs, k') \<Rightarrow> map_sum id (\<lambda>b. (VBool b, k')) (eq_builtin vs))))"

definition printValue :: "val \<Rightarrow> error + string" where
  "printValue v =
     (case v of
        VStr str \<Rightarrow> Inr str
      | VBool b \<Rightarrow> Inr (if b then ''true'' else ''false'')
      | VRecipient r \<Rightarrow> Inl not_modelled)"

definition isTrue :: "val \<Rightarrow> bool" where
  "isTrue v = (case v of VStr str \<Rightarrow> length str > 0 | VBool b \<Rightarrow> b | VRecipient r \<Rightarrow> True)"

text \<open>\<open>walk\<close> writes to the buffer \<open>wr\<close>; it returns the buffer and the call count.\<close>

fun walk :: "FuncMap \<Rightarrow> tdata \<Rightarrow> node \<Rightarrow> string \<times> nat \<Rightarrow> error + (string \<times> nat)"
  and walk_list :: "FuncMap \<Rightarrow> tdata \<Rightarrow> node list \<Rightarrow> string \<times> nat \<Rightarrow> error + (string \<times> nat)"
where
  "walk funcs dot (TextNode t) (wr, k) = Inr (wr @ t, k)"
| "walk funcs dot (ActionNode cmd) (wr, k) =
     (case evalCommand funcs dot cmd k of
        Inl err \<Rightarrow> Inl err
      | Inr (v, k') \<Rightarrow>
          (case printValue v of
             Inl err \<Rightarrow> Inl err
           | Inr str \<Rightarrow> Inr (wr @ str, k')))"
| "walk funcs dot (IfNode cmd thenList elseList) (wr, k) =
     (case evalCommand funcs dot cmd k of
        Inl err \<Rightarrow> Inl err
      | Inr (v, k') \<Rightarrow>
          if isTrue v then walk_list funcs dot thenList (wr, k')
          else walk_list funcs dot elseList (wr, k'))"
| "walk_list funcs dot [] st = Inr st"
| "walk_list funcs dot (n # ns) st =
     (case walk funcs dot n st of
        Inl err \<Rightarrow> Inl err
      | Inr st' \<Rightarrow> walk_list funcs dot ns st')"

definition template_Execute_model :: "Template_t \<Rightarrow> tdata \<Rightarrow> error + string" where
  "template_Execute_model tmpl data =
     map_sum id fst (walk_list (Funcs tmpl) data (Tree tmpl) ([], 0))"

subsection \<open>The library model\<close>

text \<open>
  An attachment is given by what its \<open>Validate\<close> returns.
\<close>

definition go :: "(Template_t, error option) deps" where
  "go =
     \<lparr>mail_ParseAddress = ParseAddress,
      template_Parse = template_Parse_model,
      template_Execute = template_Execute_model,
      url_Parse = Parse,
      URL_Query = Query,
      Values_Encode = Encode,
      URL_String = String,
      Attachment_Validate = (\<lambda>a. a)\<rparr>"

subsection \<open>Uses of \<open>hora\<close> in a template\<close>

text \<open>
  Whether a parsed template names a function of the list \<open>fs\<close> in one of its commands,
  and whether it passes the result of one to a function: the function is then an operand
  after the first of a command. The tree of a body is the one the parser of the model
  builds with \<open>hora\<close> in the function map. A body that needs a part of the language
  that is not modelled may use \<open>hora\<close> in any way, so it counts as calling it and as
  passing its result.
\<close>

definition calls_operand :: "string list \<Rightarrow> operand \<Rightarrow> bool" where
  "calls_operand fs n = (case n of Identifier name \<Rightarrow> name \<in> set fs | _ \<Rightarrow> False)"


definition passes_command :: "string list \<Rightarrow> command \<Rightarrow> bool" where
  "passes_command fs cmd = list_ex (calls_operand fs) (tl cmd)"


fun passes_node :: "string list \<Rightarrow> node \<Rightarrow> bool"
  and passes_list :: "string list \<Rightarrow> node list \<Rightarrow> bool"
where
  "passes_node fs (TextNode t) = False"
| "passes_node fs (ActionNode cmd) = passes_command fs cmd"
| "passes_node fs (IfNode cmd thenList elseList) =
     (passes_command fs cmd \<or> passes_list fs thenList \<or> passes_list fs elseList)"
| "passes_list fs [] = False"
| "passes_list fs (n # ns) = (passes_node fs n \<or> passes_list fs ns)"

definition template_tree :: "string \<Rightarrow> error + node list" where
  "template_tree body = map_sum id Tree (template_Parse_model [(''hora'', \<lambda>k. [])] body)"


definition passes_hora :: "string \<Rightarrow> bool" where
  "passes_hora body =
     (case template_tree body of
        Inl err \<Rightarrow> err = not_modelled
      | Inr tree \<Rightarrow> passes_list [''hora''] tree)"


text \<open>The context \<open>ValidateTemplate\<close> builds from its dummy data.\<close>

definition dummy_context :: PhishingTemplateContext where
  "dummy_context =
     \<lparr>From = ''foo@bar.com'',
      URL = ''http://example.com?rid=validate123'',
      Tracker = tracker_markup ''http://example.com/track?rid=validate123'',
      TrackingURL = ''http://example.com/track?rid=validate123'',
      RId = ''validate123'',
      BaseURL = ''http://example.com'',
      BaseRecipient = \<lparr>Email = ''foo@bar.com'', FirstName = ''Foo'',
                         LastName = ''Bar'', Position = ''Test''\<rparr>\<rparr>"

subsection \<open>Example inputs\<close>

definition example_recipient :: BaseRecipient where
  "example_recipient =
     \<lparr>Email = ''foo@bar.com'', FirstName = ''Foo'', LastName = ''Bar'', Position = ''Test''\<rparr>"

definition example_context :: "string \<Rightarrow> string \<Rightarrow> TemplateContext" where
  "example_context fromAddress baseURL =
     \<lparr>getFromAddress = fromAddress, getBaseURL = baseURL\<rparr>"

definition example_template :: "string \<Rightarrow> string \<Rightarrow> string \<Rightarrow> (error option) Template" where
  "example_template textBody htmlBody profile =
     \<lparr>Id = 1, UserId = 1, Name = ''Example'', EnvelopeSender = [], Subject = ''Hello'',
      Text = textBody, HTML = htmlBody, ModifiedDate = 0, Attachments = [],
      HeaderProfile = profile\<rparr>"

section \<open>The header-profile resolver: properties\<close>

lemma resolve_profile_unknown:
  "map_of PredefinedHeaderProfiles k = None \<Longrightarrow>
   resolve_profile k = resolve_profile ''default''"
  by (simp add: resolve_profile_def lookup_profile_def PredefinedHeaderProfiles_def)

lemma resolve_profile_apple:
  "fst (resolve_profile k) = ''apple_mail'' \<longleftrightarrow> k = ''apple_mail''"
  by (auto simp: resolve_profile_def lookup_profile_def PredefinedHeaderProfiles_def
           split: option.splits if_splits)

lemma length_generateBoundary: "length (generateBoundary r) = 30"
  by (simp add: generateBoundary_def boundary_length_def)

lemma set_generateBoundary: "set (generateBoundary r) \<subseteq> set charset"
proof -
  have "0 < length charset" by (simp add: charset_def)
  then have "\<And>i. charset ! Intn r i (length charset) \<in> set charset"
    by (simp add: Intn_def)
  then show ?thesis by (auto simp: generateBoundary_def)
qed

text \<open>
  Claim C1. A profile name that is not a key of the registry (the empty string is one)
  resolves as \<open>default\<close> does: with the same generators the whole result is the
  same, with any generators the header maps agree on every key but \<open>Content-Type\<close>
  (which embeds the boundary token), and the error returned is \<open>nil\<close>, as it is for
  every profile name.
\<close>

theorem GetHeadersForProfile_unknown_is_default:
  assumes "map_of PredefinedHeaderProfiles k = None"
  shows "GetHeadersForProfile r1 r2 k = GetHeadersForProfile r1 r2 ''default'' \<and>
         (fst (GetHeadersForProfile r1 r2 k))(''Content-Type'' := None) =
         (fst (GetHeadersForProfile r1' r2' ''default''))(''Content-Type'' := None) \<and>
         snd (snd (GetHeadersForProfile r1 r2 p)) = None \<and>
         map_of PredefinedHeaderProfiles [] = None"
  using resolve_profile_unknown [OF assms]
  by (simp add: GetHeadersForProfile_def Let_def split_beta PredefinedHeaderProfiles_def)

theorem GetHeadersForProfile_unknown_is_default_witness:
  "\<forall>r1 r2 r1' r2'.
     GetHeadersForProfile r1 r2 [] = GetHeadersForProfile r1 r2 ''default'' \<and>
     (fst (GetHeadersForProfile r1 r2 []))(''Content-Type'' := None) =
     (fst (GetHeadersForProfile r1' r2' ''default''))(''Content-Type'' := None) \<and>
     snd (snd (GetHeadersForProfile r1 r2 ''thunderbird'')) = None"
proof -
  have e: "map_of PredefinedHeaderProfiles [] = None"
    by (simp add: PredefinedHeaderProfiles_def)
  show ?thesis
    using GetHeadersForProfile_unknown_is_default [OF e] by blast
qed

text \<open>
  Claim C3. For every profile name and every pair of generators, the header map has a
  \<open>Content-Type\<close> whose value is \<open>multipart/alternative; boundary=\<close>, a double quote,
  the returned boundary and a double quote; the boundary is the prefix
  (\<open>Apple-Mail=_\<close> when the resolved profile is \<open>apple_mail\<close>, which is the case exactly
  for that profile name, and \<open>----=_NextPart_\<close> otherwise) followed by 30 characters of
  the charset.
\<close>

theorem GetHeadersForProfile_content_type:
  "\<exists>headers boundary token.
     GetHeadersForProfile r1 r2 p = (headers, boundary, None) \<and>
     headers ''Content-Type'' =
       Some (''multipart/alternative; boundary='' @ [CHR 0x22] @ boundary @ [CHR 0x22]) \<and>
     boundary =
       (if fst (resolve_profile p) = ''apple_mail'' then ''Apple-Mail=_''
        else ''----=_NextPart_'') @ token \<and>
     length token = 30 \<and> set token \<subseteq> set charset \<and>
     (fst (resolve_profile p) = ''apple_mail'') = (p = ''apple_mail'')"
  using length_generateBoundary set_generateBoundary resolve_profile_apple [of p]
  by (simp add: GetHeadersForProfile_def Let_def split_beta content_type_def)

theorem GetHeadersForProfile_content_type_witness:
  "\<exists>headers boundary token.
     GetHeadersForProfile (\<lambda>k. k) (\<lambda>k. 2 * k) ''apple_mail'' = (headers, boundary, None) \<and>
     headers ''Content-Type'' =
       Some (''multipart/alternative; boundary='' @ [CHR 0x22] @ boundary @ [CHR 0x22]) \<and>
     boundary = ''Apple-Mail=_'' @ token \<and>
     length token = 30 \<and> set token \<subseteq> set charset"
  using GetHeadersForProfile_content_type [of "\<lambda>k. k" "\<lambda>k. 2 * k" "''apple_mail''"]
  by (simp add: resolve_profile_apple)

section \<open>\<open>net/url\<close>: \<open>Query\<close> reads back what \<open>Encode\<close> writes\<close>

lemma hex_digits:
  "\<forall>n\<in>set [0..<16]. ishex (upperhex ! n) \<and> unhex (upperhex ! n) = n \<and> upperhex ! n \<in> set upperhex"
  by code_simp

lemma hex_digit:
  assumes "n < 16"
  shows "ishex (upperhex ! n) \<and> unhex (upperhex ! n) = n \<and> upperhex ! n \<in> set upperhex"
  using hex_digits assms by (metis atLeastLessThan_iff set_upt zero_le)

lemma byte_less: "byte c < 256"
  by (simp add: byte_def)

lemma byte_div: "byte c div 16 < 16"
  using byte_less [of c] by simp

lemma char_of_hex: "char_of (byte c div 16 * 16 + byte c mod 16) = c"
  by (simp add: byte_def)

lemma not_escaped_plain:
  assumes "\<not> shouldEscape c encodeQueryComponent"
  shows "c \<noteq> CHR ''%''" "c \<noteq> CHR ''+''" "c \<noteq> CHR ''&''" "c \<noteq> CHR '';''" "c \<noteq> CHR ''=''"
  using assms
  by (auto simp: shouldEscape_def is_alnum_def is_lower_def is_upper_def is_digit_def byte_def)

lemma separators_not_hex:
  "CHR ''&'' \<notin> set upperhex" "CHR '';'' \<notin> set upperhex" "CHR ''='' \<notin> set upperhex"
  by (simp_all add: upperhex_def)

lemma escape_byte_chars:
  assumes "x \<in> set (escape_byte encodeQueryComponent c)"
  shows "x \<noteq> CHR ''&'' \<and> x \<noteq> CHR '';'' \<and> x \<noteq> CHR ''=''"
proof (cases "c = CHR '' ''")
  case True
  with assms show ?thesis by (simp add: escape_byte_def)
next
  case False
  show ?thesis
  proof (cases "shouldEscape c encodeQueryComponent")
    case True
    with assms False have "x = CHR ''%'' \<or> x = upperhex ! (byte c div 16) \<or> x = upperhex ! (byte c mod 16)"
      by (simp add: escape_byte_def)
    moreover have "upperhex ! (byte c div 16) \<in> set upperhex" "upperhex ! (byte c mod 16) \<in> set upperhex"
      using hex_digit [of "byte c div 16"] hex_digit [of "byte c mod 16"] byte_div by simp_all
    ultimately show ?thesis using separators_not_hex by auto
  next
    case ne: False
    with assms False have "x = c" by (simp add: escape_byte_def)
    with not_escaped_plain [OF ne] show ?thesis by simp
  qed
qed

lemma QueryEscape_chars:
  assumes "x \<in> set (QueryEscape s)"
  shows "x \<noteq> CHR ''&'' \<and> x \<noteq> CHR '';'' \<and> x \<noteq> CHR ''=''"
  using assms escape_byte_chars by (auto simp: QueryEscape_def escape_def)

lemma unescape_check_escape:
  "unescape_check encodeQueryComponent (escape_byte encodeQueryComponent c @ rest) =
   unescape_check encodeQueryComponent rest"
proof (cases "c = CHR '' ''")
  case True
  then show ?thesis by (simp add: escape_byte_def)
next
  case False
  show ?thesis
  proof (cases "shouldEscape c encodeQueryComponent")
    case True
    with False hex_digit [of "byte c div 16"] hex_digit [of "byte c mod 16"] byte_div [of c]
    show ?thesis by (simp add: escape_byte_def)
  next
    case ne: False
    with False not_escaped_plain(1,2) [OF ne] show ?thesis by (simp add: escape_byte_def)
  qed
qed

lemma unescape_decode_escape:
  "unescape_decode encodeQueryComponent (escape_byte encodeQueryComponent c @ rest) =
   c # unescape_decode encodeQueryComponent rest"
proof (cases "c = CHR '' ''")
  case True
  then show ?thesis by (simp add: escape_byte_def)
next
  case False
  show ?thesis
  proof (cases "shouldEscape c encodeQueryComponent")
    case True
    with False hex_digit [of "byte c div 16"] hex_digit [of "byte c mod 16"] byte_div [of c]
      char_of_hex [of c]
    show ?thesis by (simp add: escape_byte_def)
  next
    case ne: False
    with False not_escaped_plain(1,2) [OF ne] show ?thesis by (simp add: escape_byte_def)
  qed
qed

lemma QueryUnescape_QueryEscape: "QueryUnescape (QueryEscape s) = Inr s"
proof -
  have "unescape_check encodeQueryComponent (escape s encodeQueryComponent) = None"
    by (induction s) (simp_all add: escape_def unescape_check_escape)
  moreover have "unescape_decode encodeQueryComponent (escape s encodeQueryComponent) = s"
    by (induction s) (simp_all add: escape_def unescape_decode_escape)
  ultimately show ?thesis by (simp add: QueryUnescape_def QueryEscape_def unescape_def)
qed




lemma piece_chars: "CHR ''&'' \<notin> set (piece p)" "CHR '';'' \<notin> set (piece p)" "piece p \<noteq> []"
  using QueryEscape_chars by (auto simp: piece_def)

lemma Cut_piece:
  "fst (Cut (piece p) (CHR ''='')) = QueryEscape (fst p)"
  "fst (snd (Cut (piece p) (CHR ''=''))) = QueryEscape (snd p)"
proof -
  have n: "\<forall>x\<in>set (QueryEscape (fst p)). x \<noteq> CHR ''=''"
    using QueryEscape_chars by blast
  show "fst (Cut (piece p) (CHR ''='')) = QueryEscape (fst p)"
    using n by (simp add: Cut_def piece_def takeWhile_append2)
  show "fst (snd (Cut (piece p) (CHR ''=''))) = QueryEscape (snd p)"
    using n by (simp add: Cut_def piece_def dropWhile_append2)
qed

lemma Cut_amp:
  assumes "CHR ''&'' \<notin> set a"
  shows "fst (Cut (a @ CHR ''&'' # r) (CHR ''&'')) = a"
    and "fst (snd (Cut (a @ CHR ''&'' # r) (CHR ''&''))) = r"
    and "fst (Cut a (CHR ''&'')) = a"
    and "fst (snd (Cut a (CHR ''&''))) = []"
proof -
  have n: "\<forall>x\<in>set a. x \<noteq> CHR ''&''" using assms by auto
  show "fst (Cut (a @ CHR ''&'' # r) (CHR ''&'')) = a"
    using n by (simp add: Cut_def takeWhile_append2)
  show "fst (snd (Cut (a @ CHR ''&'' # r) (CHR ''&''))) = r"
    using n by (simp add: Cut_def dropWhile_append2)
  show "fst (Cut a (CHR ''&'')) = a"
    using n by (simp add: Cut_def)
  have e: "dropWhile (\<lambda>x. x \<noteq> CHR ''&'') a = []"
    using n by (induction a) auto
  show "fst (snd (Cut a (CHR ''&''))) = []"
    unfolding Cut_def e by simp
qed

lemma parseQuery_Nil: "parseQuery m [] = m"
  by (subst parseQuery.simps) simp

lemma parseQuery_piece_more:
  "parseQuery m (piece p @ CHR ''&'' # r) = parseQuery (add_value p m) r"
  using piece_chars [of p]
  by (subst parseQuery.simps)
     (simp add: Let_def Cut_amp(1,2) Cut_piece QueryUnescape_QueryEscape add_value_def)

lemma parseQuery_piece_last:
  "parseQuery m (piece p) = add_value p m"
  using piece_chars [of p]
  by (subst parseQuery.simps)
     (simp add: Let_def Cut_amp(3,4) Cut_piece QueryUnescape_QueryEscape add_value_def
        parseQuery_Nil)

lemma parseQuery_joined: "parseQuery m (joined ps) = fold add_value ps m"
proof (induction ps arbitrary: m rule: joined.induct)
  case 1
  show ?case by (simp add: parseQuery_Nil)
next
  case (2 p)
  show ?case by (simp add: parseQuery_piece_last)
next
  case (3 p q ps)
  then show ?case by (simp add: parseQuery_piece_more)
qed


lemma joined_nonempty: "ps \<noteq> [] \<Longrightarrow> joined ps \<noteq> []"
  by (cases ps rule: joined.cases) (simp_all add: piece_chars)

lemma joined_snoc:
  "joined (ps @ [p]) = (if ps = [] then piece p else joined ps @ CHR ''&'' # piece p)"
  by (induction ps rule: joined.induct) simp_all

lemma encode_pair_joined:
  "encode_pair (QueryEscape k) x (joined ps) = joined (ps @ [(k, x)])"
  using joined_nonempty [of ps]
  by (cases "ps = []") (simp_all add: encode_pair_def joined_snoc piece_def)

lemma fold_encode_values:
  "fold (encode_pair (QueryEscape k)) xs (joined ps) = joined (ps @ map (Pair k) xs)"
proof (induction xs arbitrary: ps)
  case Nil
  show ?case by simp
next
  case (Cons x xs)
  show ?case
    using Cons.IH [of "ps @ [(k, x)]"] by (simp add: encode_pair_joined)
qed

lemma fold_encode_keys:
  "fold (\<lambda>k buf. fold (encode_pair (QueryEscape k)) (f k) buf) ks (joined ps) =
   joined (ps @ concat (map (\<lambda>k. map (Pair k) (f k)) ks))"
proof (induction ks arbitrary: ps)
  case Nil
  show ?case by simp
next
  case (Cons k ks)
  show ?case
    using Cons.IH [of "ps @ map (Pair k) (f k)"] by (simp add: fold_encode_values)
qed

lemma Encode_joined:
  "Encode v = joined (concat (map (\<lambda>k. map (Pair k) (Values_Get v k)) (sort (map fst v))))"
proof (cases v)
  case Nil
  then show ?thesis by (simp add: Encode_def)
next
  case (Cons a as)
  then show ?thesis
    using fold_encode_keys [of "Values_Get v" "sort (map fst v)" "[]"]
    by (simp add: Encode_def)
qed

lemma Values_Get_add_value:
  "Values_Get (add_value p m) key =
     (if fst p = key then Values_Get m key @ [snd p] else Values_Get m key)"
  by (simp add: add_value_def Values_Get_def update_conv')

lemma Values_Get_fold_add:
  "Values_Get (fold add_value ps m) key =
     Values_Get m key @ map snd (filter (\<lambda>p. fst p = key) ps)"
  by (induction ps arbitrary: m) (simp_all add: Values_Get_add_value)

lemma values_of_key:
  assumes "distinct ks"
  shows "map snd (filter (\<lambda>p. fst p = key) (concat (map (\<lambda>k. map (Pair k) (f k)) ks))) =
         (if key \<in> set ks then f key else [])"
  using assms
proof (induction ks)
  case Nil
  show ?case by simp
next
  case (Cons k ks)
  have a: "filter (\<lambda>p. fst p = key) (map (Pair k) (f k)) =
             (if k = key then map (Pair k) (f k) else [])"
    by (induction "f k") (auto simp: filter_empty_conv)
  from Cons show ?case
    by (auto simp: a comp_def)
qed

lemma Values_Get_Nil: "Values_Get [] key = []"
  by (simp add: Values_Get_def)

lemma Values_Get_missing: "key \<notin> fst ` set v \<Longrightarrow> Values_Get v key = []"
  by (simp add: Values_Get_def map_of_eq_None_iff [THEN iffD2])

lemma Query_Encode:
  assumes "distinct (map fst v)"
  shows "Values_Get (parseQuery [] (Encode v)) key = Values_Get v key"
proof -
  have d: "distinct (sort (map fst v))" using assms by simp
  have "Values_Get (parseQuery [] (Encode v)) key =
          (if key \<in> set (sort (map fst v)) then Values_Get v key else [])"
    by (simp add: Encode_joined parseQuery_joined Values_Get_fold_add values_of_key [OF d]
          Values_Get_Nil)
  then show ?thesis using Values_Get_missing [of key v] by auto
qed

lemma distinct_parseQuery:
  "distinct (map fst m) \<Longrightarrow> distinct (map fst (parseQuery m query))"
proof (induction m query rule: parseQuery.induct)
  case (1 m query)
  show ?case
  proof (cases "query = []")
    case True
    with 1(6) show ?thesis by (simp add: parseQuery_Nil)
  next
    case False
    have u: "\<And>k x. distinct (map fst (AList.update k x m))"
      using 1(6) by (simp add: distinct_update)
    show ?thesis
      using False 1(1-5) 1(6) u
      by (subst parseQuery.simps) (auto simp: Let_def split: sum.splits)
  qed
qed

lemma distinct_Query: "distinct (map fst (Values_Set (Query u) key val))"
  using distinct_parseQuery [of "[]" "RawQuery u"]
  by (simp add: Values_Set_def Query_def distinct_update)

subsection \<open>The parameters of a query\<close>

lemma split_amp_Cut:
  "split_amp s =
     fst (Cut s (CHR ''&'')) #
     (if CHR ''&'' \<in> set s then split_amp (fst (snd (Cut s (CHR ''&'')))) else [])"
  by (induction s) (auto simp: Cut_def)

lemma parameters_Nil: "parameters [] = []"
  by (simp add: parameters_def parameter_def List.map_filter_simps)

lemma Cut_rest_Nil: "sep \<notin> set s \<Longrightarrow> fst (snd (Cut s sep)) = []"
  by (induction s) (auto simp: Cut_def)

lemma parameters_Cut:
  "parameters s =
     (case parameter (fst (Cut s (CHR ''&''))) of None \<Rightarrow> [] | Some p \<Rightarrow> [p]) @
     parameters (fst (snd (Cut s (CHR ''&''))))"
proof (cases "CHR ''&'' \<in> set s")
  case True
  then show ?thesis
    by (subst parameters_def, subst split_amp_Cut)
       (simp add: List.map_filter_simps parameters_def split: option.splits)
next
  case False
  then show ?thesis
    using Cut_rest_Nil [OF False]
    by (subst parameters_def, subst split_amp_Cut)
       (simp add: List.map_filter_simps parameters_Nil split: option.splits)
qed

lemma parseQuery_step:
  assumes "query \<noteq> []"
  shows "parseQuery m query =
         parseQuery (case parameter (fst (Cut query (CHR ''&''))) of
                       None \<Rightarrow> m | Some p \<Rightarrow> add_value p m)
           (fst (snd (Cut query (CHR ''&''))))"
  using assms
  by (subst parseQuery.simps)
     (simp add: Let_def parameter_def add_value_def split: sum.splits)

lemma parseQuery_parameters: "parseQuery m query = fold add_value (parameters query) m"
proof (induction query arbitrary: m rule: length_induct)
  case (1 query)
  show ?case
  proof (cases "query = []")
    case True
    then show ?thesis by (simp add: parseQuery_Nil parameters_Nil)
  next
    case False
    let ?rest = "fst (snd (Cut query (CHR ''&'')))"
    have "length ?rest < length query"
      using length_rest_of_Cut [OF False] by (simp add: Cut_def)
    with 1 have ih: "\<And>m. parseQuery m ?rest = fold add_value (parameters ?rest) m"
      by blast
    show ?thesis
      by (subst parseQuery_step [OF False], subst parameters_Cut)
         (simp add: ih split: option.splits)
  qed
qed

lemma Query_parameter_values:
  "Values_Get (Query u) key = parameter_values (RawQuery u) key"
  by (simp add: Query_def parseQuery_parameters Values_Get_fold_add Values_Get_Nil
        parameter_values_def)

lemma Encode_parameter_values:
  assumes "distinct (map fst v)"
  shows "parameter_values (Encode v) key = Values_Get v key"
  using Query_Encode [OF assms, of key]
  by (simp add: parseQuery_parameters Values_Get_fold_add Values_Get_Nil parameter_values_def)

lemma Values_Get_Set:
  "Values_Get (Values_Set v key val) k = (if k = key then [val] else Values_Get v k)"
  by (simp add: Values_Set_def Values_Get_def update_conv')

section \<open>The template context: properties\<close>

lemma NewPhishingTemplateContext_success:
  assumes "NewPhishingTemplateContext L clock ctx r rid = (c, None)"
  shows "\<exists>f templateURL u.
           mail_ParseAddress L (getFromAddress ctx) = Inr f \<and>
           ExecuteTemplate L clock (getBaseURL ctx) (RecipientData r) = (templateURL, None) \<and>
           url_Parse L templateURL = Inr u \<and>
           c = \<lparr>From = (if Address.Name f = [] then Address f else Address.Name f),
                URL = URL_String L
                  (u\<lparr>RawQuery :=
                       Values_Encode L (Values_Set (URL_Query L u) RecipientParameter rid)\<rparr>),
                Tracker = tracker_markup (URL_String L
                  (u\<lparr>Path := path_Join [Path u, ''/track''],
                     RawQuery :=
                       Values_Encode L (Values_Set (URL_Query L u) RecipientParameter rid)\<rparr>)),
                TrackingURL = URL_String L
                  (u\<lparr>Path := path_Join [Path u, ''/track''],
                     RawQuery :=
                       Values_Encode L (Values_Set (URL_Query L u) RecipientParameter rid)\<rparr>),
                RId = rid,
                BaseURL = URL_String L (u\<lparr>Path := [], RawQuery := []\<rparr>),
                BaseRecipient = r\<rparr>"
  using assms
  by (auto simp: NewPhishingTemplateContext_def Let_def
           split: sum.splits prod.splits option.splits)

lemma pair_with_None: "snd x = None \<Longrightarrow> x = (fst x, None)"
  by (cases x) simp

lemma ParseAddress_Address_nonempty:
  assumes "ParseAddress s = Inr f"
  shows "Address f \<noteq> []"
  using assms
  by (auto simp: ParseAddress_def parseAddress_def consumeAddrSpec_def Let_def
           split: if_splits sum.splits prod.splits)

text \<open>
  Claim C4. When a context is built, the From address parsed, and the \<open>From\<close> field is
  the display name of the parsed address when that is not empty and the bare address
  otherwise; so it is not empty when the address is not, and an address that the parser
  of the library model accepts is never empty.
\<close>

theorem From_is_name_or_address:
  assumes "NewPhishingTemplateContext L clock ctx r rid = (c, None)"
  shows "\<exists>f. mail_ParseAddress L (getFromAddress ctx) = Inr f \<and>
             (Address.Name f \<noteq> [] \<longrightarrow> From c = Address.Name f) \<and>
             (Address.Name f = [] \<longrightarrow> From c = Address f) \<and>
             (Address f \<noteq> [] \<longrightarrow> From c \<noteq> []) \<and>
             (mail_ParseAddress L = ParseAddress \<longrightarrow> From c \<noteq> [])"
proof -
  from NewPhishingTemplateContext_success [OF assms] obtain f where
    f: "mail_ParseAddress L (getFromAddress ctx) = Inr f" and
    c: "From c = (if Address.Name f = [] then Address f else Address.Name f)"
    by auto
  have "mail_ParseAddress L = ParseAddress \<Longrightarrow> Address f \<noteq> []"
    using f ParseAddress_Address_nonempty by metis
  with f c show ?thesis by auto
qed

theorem From_is_name_or_address_witness:
  "From (fst (NewPhishingTemplateContext go (\<lambda>k. 0)
       (example_context ''Foo Bar <foo@bar.com>'' ''http://example.com'')
       example_recipient ''1234'')) = ''Foo Bar'' \<and>
   mail_ParseAddress go ''Foo Bar <foo@bar.com>'' =
     Inr \<lparr>Address.Name = ''Foo Bar'', Address = ''foo@bar.com''\<rparr> \<and>
   From (fst (NewPhishingTemplateContext go (\<lambda>k. 0)
       (example_context ''foo@bar.com'' ''http://example.com'')
       example_recipient ''1234'')) = ''foo@bar.com'' \<and>
   mail_ParseAddress go ''foo@bar.com'' =
     Inr \<lparr>Address.Name = [], Address = ''foo@bar.com''\<rparr>"
proof -
  let ?x = "NewPhishingTemplateContext go (\<lambda>k. 0)
       (example_context ''Foo Bar <foo@bar.com>'' ''http://example.com'')
       example_recipient ''1234''"
  let ?y = "NewPhishingTemplateContext go (\<lambda>k. 0)
       (example_context ''foo@bar.com'' ''http://example.com'')
       example_recipient ''1234''"
  have "snd ?x = None" by code_simp
  then have x: "?x = (fst ?x, None)" by (rule pair_with_None)
  have "snd ?y = None" by code_simp
  then have y: "?y = (fst ?y, None)" by (rule pair_with_None)
  have p: "mail_ParseAddress go ''Foo Bar <foo@bar.com>'' =
             Inr \<lparr>Address.Name = ''Foo Bar'', Address = ''foo@bar.com''\<rparr>"
    by code_simp
  have q: "mail_ParseAddress go ''foo@bar.com'' =
             Inr \<lparr>Address.Name = [], Address = ''foo@bar.com''\<rparr>"
    by code_simp
  show ?thesis
    using From_is_name_or_address [OF x] From_is_name_or_address [OF y] p q
    by (auto simp: example_context_def)
qed

text \<open>
  Claim C6, as stated, fails: \<open>URL.Query\<close> drops the parts of the query that have a
  semicolon or an escape that does not decode, so these parameters of the rendered URL
  are not in the phishing URL.
\<close>

theorem URL_drops_malformed_parameters:
  "snd (NewPhishingTemplateContext go (\<lambda>k. 0)
       (example_context ''foo@bar.com'' ''http://example.com/?a=1;b=2&c=3&d=%zz&c=4'')
       example_recipient ''1234'') = None \<and>
   URL (fst (NewPhishingTemplateContext go (\<lambda>k. 0)
       (example_context ''foo@bar.com'' ''http://example.com/?a=1;b=2&c=3&d=%zz&c=4'')
       example_recipient ''1234'')) = ''http://example.com/?c=3&c=4&rid=1234'' \<and>
   split_amp ''a=1;b=2&c=3&d=%zz&c=4'' = [''a=1;b=2'', ''c=3'', ''d=%zz'', ''c=4''] \<and>
   parameters ''a=1;b=2&c=3&d=%zz&c=4'' = [(''c'', ''3''), (''c'', ''4'')]"
  by code_simp

text \<open>
  Claim C6, amended. When a context is built, its \<open>URL\<close> is the rendered URL, serialised
  with the encoding of the query values in which the recipient key is set to the one
  value \<open>rid\<close>: whatever values the key had in the rendered URL are replaced, and the
  values of every other key are those \<open>URL.Query\<close> read. With \<open>Query\<close> and \<open>Encode\<close> as
  modelled, the parameters of the new query are, for the recipient key, the one value
  \<open>rid\<close>, and for every other key the parameters of the rendered query, in their order:
  the parts without a semicolon whose key and value unescape, and no other part.
\<close>

theorem URL_sets_recipient_parameter:
  assumes "NewPhishingTemplateContext L clock ctx r rid = (c, None)"
  shows "\<exists>templateURL u q.
           ExecuteTemplate L clock (getBaseURL ctx) (RecipientData r) = (templateURL, None) \<and>
           url_Parse L templateURL = Inr u \<and>
           URL c = URL_String L (u\<lparr>RawQuery := Values_Encode L q\<rparr>) \<and>
           map_of q RecipientParameter = Some [rid] \<and>
           (\<forall>key. key \<noteq> RecipientParameter \<longrightarrow> map_of q key = map_of (URL_Query L u) key) \<and>
           (URL_Query L = Query \<and> Values_Encode L = Encode \<longrightarrow>
            (\<forall>key. parameter_values (Values_Encode L q) key =
                   (if key = RecipientParameter then [rid]
                    else parameter_values (RawQuery u) key)))"
proof -
  from NewPhishingTemplateContext_success [OF assms] obtain templateURL u where
    t: "ExecuteTemplate L clock (getBaseURL ctx) (RecipientData r) = (templateURL, None)" and
    u: "url_Parse L templateURL = Inr u" and
    c: "URL c = URL_String L
          (u\<lparr>RawQuery :=
               Values_Encode L (Values_Set (URL_Query L u) RecipientParameter rid)\<rparr>)"
    by auto
  let ?q = "Values_Set (URL_Query L u) RecipientParameter rid"
  have "map_of ?q RecipientParameter = Some [rid]"
    by (simp add: Values_Set_def update_conv')
  moreover have "\<forall>key. key \<noteq> RecipientParameter \<longrightarrow> map_of ?q key = map_of (URL_Query L u) key"
    by (simp add: Values_Set_def update_conv')
  moreover have "URL_Query L = Query \<and> Values_Encode L = Encode \<longrightarrow>
      (\<forall>key. parameter_values (Values_Encode L ?q) key =
             (if key = RecipientParameter then [rid] else parameter_values (RawQuery u) key))"
    using Encode_parameter_values [OF distinct_Query, of u RecipientParameter rid]
    by (simp add: Values_Get_Set Query_parameter_values)
  ultimately show ?thesis using t u c by blast
qed

theorem URL_sets_recipient_parameter_witness:
  "URL (fst (NewPhishingTemplateContext go (\<lambda>k. 0)
       (example_context ''foo@bar.com'' ''http://example.com/login?rid=old&lang=en&x=a%20b'')
       example_recipient ''1234'')) = ''http://example.com/login?lang=en&rid=1234&x=a+b'' \<and>
   (\<exists>u. url_Parse go ''http://example.com/login?rid=old&lang=en&x=a%20b'' = Inr u \<and>
        RawQuery u = ''rid=old&lang=en&x=a%20b'') \<and>
   parameters ''rid=old&lang=en&x=a%20b'' = [(''rid'', ''old''), (''lang'', ''en''), (''x'', ''a b'')] \<and>
   parameters ''lang=en&rid=1234&x=a+b'' = [(''lang'', ''en''), (''rid'', ''1234''), (''x'', ''a b'')]"
proof -
  let ?x = "NewPhishingTemplateContext go (\<lambda>k. 0)
       (example_context ''foo@bar.com'' ''http://example.com/login?rid=old&lang=en&x=a%20b'')
       example_recipient ''1234''"
  have "snd ?x = None" by code_simp
  then have x: "?x = (fst ?x, None)" by (rule pair_with_None)
  have t: "ExecuteTemplate go (\<lambda>k. 0) ''http://example.com/login?rid=old&lang=en&x=a%20b''
             (RecipientData example_recipient) =
           (''http://example.com/login?rid=old&lang=en&x=a%20b'', None)"
    by code_simp
  have v: "URL (fst ?x) = ''http://example.com/login?lang=en&rid=1234&x=a+b''"
    by code_simp
  have p: "url_Parse go ''http://example.com/login?rid=old&lang=en&x=a%20b'' =
            Inr (zero_URL\<lparr>Scheme := ''http'', Host := ''example.com'', Path := ''/login'',
                           RawQuery := ''rid=old&lang=en&x=a%20b''\<rparr>)"
    by code_simp
  have q: "parameters ''rid=old&lang=en&x=a%20b'' =
             [(''rid'', ''old''), (''lang'', ''en''), (''x'', ''a b'')]"
          "parameters ''lang=en&rid=1234&x=a+b'' =
             [(''lang'', ''en''), (''rid'', ''1234''), (''x'', ''a b'')]"
    by code_simp+
  show ?thesis
    using URL_sets_recipient_parameter [OF x] t v p q
    by (auto simp: example_context_def zero_URL_def)
qed

text \<open>
  Claim C8. Whenever \<open>NewPhishingTemplateContext\<close> returns an error, the context it
  returns is the zero context, and the error wraps the parse error of the From address,
  the error of rendering the base URL template or the parse error of the rendered URL.
\<close>

theorem error_returns_zero_context:
  assumes "snd (NewPhishingTemplateContext L clock ctx r rid) \<noteq> None"
  shows "fst (NewPhishingTemplateContext L clock ctx r rid) = zero_PhishingTemplateContext \<and>
         ((\<exists>err. mail_ParseAddress L (getFromAddress ctx) = Inl err \<and>
                 snd (NewPhishingTemplateContext L clock ctx r rid) =
                   Some (Errorf (''failed to parse from address '' @
                                 quote (getFromAddress ctx)) err)) \<or>
          (\<exists>err. snd (ExecuteTemplate L clock (getBaseURL ctx) (RecipientData r)) = Some err \<and>
                 snd (NewPhishingTemplateContext L clock ctx r rid) =
                   Some (Errorf ''failed to execute base URL template'' err)) \<or>
          (\<exists>templateURL err.
                 ExecuteTemplate L clock (getBaseURL ctx) (RecipientData r) =
                   (templateURL, None) \<and>
                 url_Parse L templateURL = Inl err \<and>
                 snd (NewPhishingTemplateContext L clock ctx r rid) =
                   Some (Errorf (''failed to parse templated base URL '' @
                                 quote templateURL) err)))"
  using assms
  by (auto simp: NewPhishingTemplateContext_def Let_def
           split: sum.splits prod.splits option.splits)

theorem error_returns_zero_context_witness:
  "snd (NewPhishingTemplateContext go (\<lambda>k. 0)
       (example_context ''not an address'' ''http://example.com'')
       example_recipient ''1234'') \<noteq> None \<and>
   snd (NewPhishingTemplateContext go (\<lambda>k. 0)
       (example_context ''foo@bar.com'' ''http://example.com/{{.Unknown}}'')
       example_recipient ''1234'') \<noteq> None \<and>
   snd (NewPhishingTemplateContext go (\<lambda>k. 0)
       (example_context ''foo@bar.com'' ''http://{{.FirstName}} {{.LastName}}.example.com'')
       example_recipient ''1234'') \<noteq> None \<and>
   fst (NewPhishingTemplateContext go (\<lambda>k. 0)
       (example_context ''not an address'' ''http://example.com'')
       example_recipient ''1234'') = zero_PhishingTemplateContext \<and>
   fst (NewPhishingTemplateContext go (\<lambda>k. 0)
       (example_context ''foo@bar.com'' ''http://example.com/{{.Unknown}}'')
       example_recipient ''1234'') = zero_PhishingTemplateContext \<and>
   fst (NewPhishingTemplateContext go (\<lambda>k. 0)
       (example_context ''foo@bar.com'' ''http://{{.FirstName}} {{.LastName}}.example.com'')
       example_recipient ''1234'') = zero_PhishingTemplateContext"
proof -
  have a: "snd (NewPhishingTemplateContext go (\<lambda>k. 0)
       (example_context ''not an address'' ''http://example.com'')
       example_recipient ''1234'') \<noteq> None"
    by code_simp
  have b: "snd (NewPhishingTemplateContext go (\<lambda>k. 0)
       (example_context ''foo@bar.com'' ''http://example.com/{{.Unknown}}'')
       example_recipient ''1234'') \<noteq> None"
    by code_simp
  have c: "snd (NewPhishingTemplateContext go (\<lambda>k. 0)
       (example_context ''foo@bar.com'' ''http://{{.FirstName}} {{.LastName}}.example.com'')
       example_recipient ''1234'') \<noteq> None"
    by code_simp
  show ?thesis
    using a b c error_returns_zero_context [OF a] error_returns_zero_context [OF b]
      error_returns_zero_context [OF c]
    by blast
qed

section \<open>Template validation: properties\<close>

text \<open>
  Claim C7. A template whose header profile is not empty and is not a key of the registry
  is rejected by \<open>Validate\<close> with \<open>ErrInvalidHeaderProfile\<close>, whatever its other fields
  and the library; \<open>GetHeadersForProfile\<close> on the same name returns no error and what it
  returns for \<open>default\<close>.
\<close>

theorem Validate_rejects_unknown_profile:
  assumes "HeaderProfile t \<noteq> []"
    and "map_of PredefinedHeaderProfiles (HeaderProfile t) = None"
  shows "Validate L c1 c2 c3 c4 t = Some ErrInvalidHeaderProfile \<and>
         snd (snd (GetHeadersForProfile r1 r2 (HeaderProfile t))) = None \<and>
         GetHeadersForProfile r1 r2 (HeaderProfile t) = GetHeadersForProfile r1 r2 ''default''"
  using assms resolve_profile_unknown [OF assms(2)]
  by (simp add: Validate_def lookup_profile_def GetHeadersForProfile_def Let_def split_beta)

theorem Validate_rejects_unknown_profile_witness:
  "Validate go (\<lambda>k. 0) (\<lambda>k. 0) (\<lambda>k. 0) (\<lambda>k. 0)
     (example_template ''Hello {{.FirstName}}'' [] ''thunderbird'') =
     Some ErrInvalidHeaderProfile \<and>
   snd (snd (GetHeadersForProfile (\<lambda>k. k) (\<lambda>k. k) ''thunderbird'')) = None \<and>
   Validate go (\<lambda>k. 0) (\<lambda>k. 0) (\<lambda>k. 0) (\<lambda>k. 0)
     (example_template ''Hello {{.FirstName}}'' [] ''outlook'') = None"
proof -
  have a: "HeaderProfile (example_template ''Hello {{.FirstName}}'' [] ''thunderbird'') \<noteq> []"
    by (simp add: example_template_def)
  have b: "map_of PredefinedHeaderProfiles
             (HeaderProfile (example_template ''Hello {{.FirstName}}'' [] ''thunderbird'')) = None"
    by (simp add: example_template_def PredefinedHeaderProfiles_def)
  have c: "Validate go (\<lambda>k. 0) (\<lambda>k. 0) (\<lambda>k. 0) (\<lambda>k. 0)
            (example_template ''Hello {{.FirstName}}'' [] ''outlook'') = None"
    by code_simp
  show ?thesis
    using Validate_rejects_unknown_profile [OF a b] c
    by (simp only: example_template_def Template.simps) blast
qed

subsection \<open>The dummy context is fixed\<close>

lemma go_simps:
  "mail_ParseAddress go = ParseAddress"
  "template_Parse go = template_Parse_model"
  "template_Execute go = template_Execute_model"
  "url_Parse go = Parse"
  "URL_Query go = Query"
  "Values_Encode go = Encode"
  "URL_String go = String"
  "Attachment_Validate go = (\<lambda>a. a)"
  by (simp_all add: go_def)

lemma ExecuteTemplate_example_com:
  "ExecuteTemplate go clock ''http://example.com'' data = (''http://example.com'', None)"
  by (simp add: ExecuteTemplate_def go_simps template_Parse_model_def add_text_def
        template_Execute_model_def)

lemma ExecuteTemplate_empty:
  "ExecuteTemplate go clock [] data = ([], None)"
  by (simp add: ExecuteTemplate_def go_simps template_Parse_model_def add_text_def
        template_Execute_model_def)

lemma dummy_context_at_midnight:
  "NewPhishingTemplateContext go (\<lambda>k. 0)
     (ValidationContext_methods
        \<lparr>FromAddress = ''foo@bar.com'', BaseURL = ''http://example.com''\<rparr>)
     \<lparr>Email = ''foo@bar.com'', FirstName = ''Foo'', LastName = ''Bar'', Position = ''Test''\<rparr>
     ''validate123'' = (dummy_context, None)"
  by code_simp

lemma dummy_context_fixed:
  "NewPhishingTemplateContext go clock
     (ValidationContext_methods
        \<lparr>FromAddress = ''foo@bar.com'', BaseURL = ''http://example.com''\<rparr>)
     \<lparr>Email = ''foo@bar.com'', FirstName = ''Foo'', LastName = ''Bar'', Position = ''Test''\<rparr>
     ''validate123'' = (dummy_context, None)"
proof -
  have b: "getBaseURL (ValidationContext_methods
        \<lparr>FromAddress = ''foo@bar.com'', BaseURL = ''http://example.com''\<rparr>) =
      ''http://example.com''"
    by (simp add: ValidationContext_methods_def)
  have "NewPhishingTemplateContext go clock
     (ValidationContext_methods
        \<lparr>FromAddress = ''foo@bar.com'', BaseURL = ''http://example.com''\<rparr>)
     \<lparr>Email = ''foo@bar.com'', FirstName = ''Foo'', LastName = ''Bar'', Position = ''Test''\<rparr>
     ''validate123'' =
     NewPhishingTemplateContext go (\<lambda>k. 0)
     (ValidationContext_methods
        \<lparr>FromAddress = ''foo@bar.com'', BaseURL = ''http://example.com''\<rparr>)
     \<lparr>Email = ''foo@bar.com'', FirstName = ''Foo'', LastName = ''Bar'', Position = ''Test''\<rparr>
     ''validate123''"
    unfolding NewPhishingTemplateContext_def b ExecuteTemplate_example_com ..
  then show ?thesis by (simp only: dummy_context_at_midnight)
qed

lemma ValidateTemplate_go:
  "ValidateTemplate go c1 c2 body =
     (case ExecuteTemplate go c2 body (ContextData dummy_context) of
        (_, Some err) \<Rightarrow> Some (Errorf ''template validation failed'' err)
      | (_, None) \<Rightarrow> None)"
  unfolding ValidateTemplate_def Let_def dummy_context_fixed by simp

text \<open>
  Claim C10. In the library model, \<open>ValidateTemplate\<close> of the empty body returns \<open>nil\<close>
  at every time. So in \<open>Validate\<close> the validation of an empty HTML or text body never
  returns: on a template whose text is empty the result is that of the checks before and
  of the HTML body and the attachments, and likewise with the two bodies exchanged.
\<close>

theorem ValidateTemplate_empty_is_valid:
  "ValidateTemplate go c1 c2 [] = None \<and>
   (Text t = [] \<longrightarrow>
      Validate go c1 c2 c3 c4 t =
        (if HeaderProfile t \<noteq> [] \<and> \<not> snd (lookup_profile (HeaderProfile t))
         then Some ErrInvalidHeaderProfile
         else case validate_switch go t of
                Some err \<Rightarrow> Some err
              | None \<Rightarrow>
                  (case ValidateTemplate go c1 c2 (HTML t) of
                     Some err \<Rightarrow> Some err
                   | None \<Rightarrow> validate_attachments (\<lambda>a. a) (Attachments t)))) \<and>
   (HTML t = [] \<longrightarrow>
      Validate go c1 c2 c3 c4 t =
        (if HeaderProfile t \<noteq> [] \<and> \<not> snd (lookup_profile (HeaderProfile t))
         then Some ErrInvalidHeaderProfile
         else case validate_switch go t of
                Some err \<Rightarrow> Some err
              | None \<Rightarrow>
                  (case ValidateTemplate go c3 c4 (Text t) of
                     Some err \<Rightarrow> Some err
                   | None \<Rightarrow> validate_attachments (\<lambda>a. a) (Attachments t))))"
proof -
  have e: "\<And>c c'. ValidateTemplate go c c' [] = None"
    by (simp add: ValidateTemplate_go ExecuteTemplate_empty)
  show ?thesis
    by (simp add: Validate_def e go_simps split: option.splits)
qed

theorem ValidateTemplate_empty_is_valid_witness:
  "ValidateTemplate go (\<lambda>k. 0) (\<lambda>k. 0) [] = None \<and>
   Validate go (\<lambda>k. 0) (\<lambda>k. 0) (\<lambda>k. 0) (\<lambda>k. 0)
     (example_template [] ''<p>Hello {{.FirstName}}</p>'' ''default'') = None \<and>
   Validate go (\<lambda>k. 0) (\<lambda>k. 0) (\<lambda>k. 0) (\<lambda>k. 0)
     (example_template ''Hello {{.FirstName}}'' [] ''default'') = None"
proof -
  have h: "ValidateTemplate go (\<lambda>k. 0) (\<lambda>k. 0) ''<p>Hello {{.FirstName}}</p>'' = None"
    by code_simp
  have x: "ValidateTemplate go (\<lambda>k. 0) (\<lambda>k. 0) ''Hello {{.FirstName}}'' = None"
    by code_simp
  have s: "\<And>a b. a \<noteq> [] \<or> b \<noteq> [] \<Longrightarrow>
             validate_switch go (example_template a b ''default'') = None"
    by (auto simp: validate_switch_def example_template_def)
  have p: "snd (lookup_profile ''default'')"
    by (simp add: lookup_profile_def PredefinedHeaderProfiles_def)
  show ?thesis
    using ValidateTemplate_empty_is_valid
            [of "\<lambda>k. 0" "\<lambda>k. 0" "example_template [] ''<p>Hello {{.FirstName}}</p>'' ''default''"
                "\<lambda>k. 0" "\<lambda>k. 0"]
          ValidateTemplate_empty_is_valid
            [of "\<lambda>k. 0" "\<lambda>k. 0" "example_template ''Hello {{.FirstName}}'' [] ''default''"
                "\<lambda>k. 0" "\<lambda>k. 0"]
          h x s p
    by (simp add: example_template_def)
qed

subsection \<open>Templates and \<open>hora\<close>\<close>

















text \<open>
  Bodies that compare \<open>hora\<close> through parts of the language that are not modelled count
  as passing it, as the body of the comparison with \<open>eq\<close> does; a body that the parser
  refuses does not.
\<close>

lemma bodies_outside_the_model_pass_hora:
  "passes_hora (''{{if eq (hora) '' @ [CHR 0x22] @ ''12:00'' @ [CHR 0x22] @
                 ''}}{{.Unknown}}{{end}}'') \<and>
   passes_hora (''{{if hora | eq '' @ [CHR 0x22] @ ''12:00'' @ [CHR 0x22] @
                 ''}}{{.Unknown}}{{end}}'') \<and>
   passes_hora (''{{if ne hora '' @ [CHR 0x22] @ ''12:00'' @ [CHR 0x22] @
                 ''}}{{.Unknown}}{{end}}'') \<and>
   passes_hora (''{{if eq hora '' @ [CHR 0x22] @ ''12:00'' @ [CHR 0x22] @
                 ''}}{{.Unknown}}{{end}}'') \<and>
   \<not> passes_hora ''{{.Unknown'' \<and>
   template_tree ''{{.Unknown'' = Inl (LibError ''unclosed action'')"
  by code_simp

section \<open>Package path: properties\<close>


























section \<open>The URLs of the context\<close>

lemma unescape_Nil:
  assumes "unescape s mode = Inr []"
  shows "s = []"
proof (cases s)
  case Nil
  then show ?thesis .
next
  case (Cons c cs)
  with assms show ?thesis
    by (auto simp: unescape_def split: option.splits if_splits list.splits)
qed

lemma EscapedPath_empty: "Path u = [] \<Longrightarrow> EscapedPath u = []"
  using unescape_Nil [of "RawPath u" encodePath]
  by (auto simp: EscapedPath_def escape_def)

lemma String_scheme_host:
  assumes "Scheme u \<noteq> []" and "Host u \<noteq> []" and "Opaque u = []" and "User u = None"
    and "\<not> ForceQuery u" and "Fragment u = []"
  shows "String (u\<lparr>Path := [], RawQuery := []\<rparr>) = Scheme u @ ''://'' @ escape (Host u) encodeHost"
  using assms by (simp add: String_def Let_def EscapedPath_empty Cut_def)

text \<open>
  Claim C5. \<open>BaseURL\<close> is to be the rendered URL with path and query stripped, scheme
  and host only; the source says of it that it has the form \<open>http://example.com\<close>. The
  code resets the two fields \<open>Path\<close> and \<open>RawQuery\<close> and no other: for a rendered URL
  with a fragment, or with user information, \<open>BaseURL\<close> is not scheme and host only.
\<close>

theorem BaseURL_keeps_fragment_and_user:
  "BaseURL (fst (NewPhishingTemplateContext go (\<lambda>k. 0)
       (example_context ''foo@bar.com'' ''http://example.com/landing?x=1#top'')
       example_recipient ''1234'')) = ''http://example.com#top'' \<and>
   snd (NewPhishingTemplateContext go (\<lambda>k. 0)
       (example_context ''foo@bar.com'' ''http://example.com/landing?x=1#top'')
       example_recipient ''1234'') = None \<and>
   Parse ''http://example.com#top'' =
     Inr (zero_URL\<lparr>Scheme := ''http'', Host := ''example.com'', Fragment := ''top''\<rparr>) \<and>
   BaseURL (fst (NewPhishingTemplateContext go (\<lambda>k. 0)
       (example_context ''foo@bar.com'' ''http://user:pw@example.com/landing'')
       example_recipient ''1234'')) = ''http://user:pw@example.com'' \<and>
   snd (NewPhishingTemplateContext go (\<lambda>k. 0)
       (example_context ''foo@bar.com'' ''http://user:pw@example.com/landing'')
       example_recipient ''1234'') = None"
  by code_simp

text \<open>
  What holds of \<open>BaseURL\<close> for every built context: it is the rendered URL serialised
  with its path and its query set empty. With \<open>URL.String\<close> as modelled, that is the
  scheme, \<open>://\<close> and the host when the rendered URL has a scheme and a host and no
  opaque part, user information, fragment or empty query mark.
\<close>

lemma BaseURL_strips_path_and_query:
  assumes "NewPhishingTemplateContext L clock ctx r rid = (c, None)"
  shows "\<exists>templateURL u.
           ExecuteTemplate L clock (getBaseURL ctx) (RecipientData r) = (templateURL, None) \<and>
           url_Parse L templateURL = Inr u \<and>
           BaseURL c = URL_String L (u\<lparr>Path := [], RawQuery := []\<rparr>) \<and>
           (URL_String L = String \<and> Scheme u \<noteq> [] \<and> Host u \<noteq> [] \<and> Opaque u = [] \<and>
            User u = None \<and> \<not> ForceQuery u \<and> Fragment u = [] \<longrightarrow>
            BaseURL c = Scheme u @ ''://'' @ escape (Host u) encodeHost)"
proof -
  from NewPhishingTemplateContext_success [OF assms] obtain templateURL u where
    t: "ExecuteTemplate L clock (getBaseURL ctx) (RecipientData r) = (templateURL, None)" and
    u: "url_Parse L templateURL = Inr u" and
    c: "BaseURL c = URL_String L (u\<lparr>Path := [], RawQuery := []\<rparr>)"
    by auto
  show ?thesis
    using t u c String_scheme_host [of u] by auto
qed

lemma BaseURL_strips_path_and_query_example:
  "BaseURL (fst (NewPhishingTemplateContext go (\<lambda>k. 0)
       (example_context ''foo@bar.com'' ''http://{{.FirstName}}.example.com/landing?x=1'')
       example_recipient ''1234'')) = ''http://Foo.example.com'' \<and>
   url_Parse go ''http://Foo.example.com/landing?x=1'' =
     Inr (zero_URL\<lparr>Scheme := ''http'', Host := ''Foo.example.com'', Path := ''/landing'',
                    RawQuery := ''x=1''\<rparr>)"
proof -
  let ?x = "NewPhishingTemplateContext go (\<lambda>k. 0)
       (example_context ''foo@bar.com'' ''http://{{.FirstName}}.example.com/landing?x=1'')
       example_recipient ''1234''"
  have "snd ?x = None" by code_simp
  then have x: "?x = (fst ?x, None)" by (rule pair_with_None)
  have t: "ExecuteTemplate go (\<lambda>k. 0) ''http://{{.FirstName}}.example.com/landing?x=1''
             (RecipientData example_recipient) =
           (''http://Foo.example.com/landing?x=1'', None)"
    by code_simp
  have p: "url_Parse go ''http://Foo.example.com/landing?x=1'' =
     Inr (zero_URL\<lparr>Scheme := ''http'', Host := ''Foo.example.com'', Path := ''/landing'',
                    RawQuery := ''x=1''\<rparr>)"
    by code_simp
  have e: "''http'' @ ''://'' @ escape ''Foo.example.com'' encodeHost = ''http://Foo.example.com''"
    by code_simp
  from BaseURL_strips_path_and_query [OF x] t p e show ?thesis
    by (auto simp: example_context_def go_simps zero_URL_def)
qed




end
